theory Spec2Isabelle
  imports Main "HOL-Library.Word" "HOL-Library.Sublist"
begin

unbundle bit_operations_syntax

section \<open>goreleases: fetching, verifying and extracting a Go release\<close>

text \<open>
  A shallow embedding of \<^verbatim>\<open>fetch.go\<close>: the functions \<^verbatim>\<open>Fetch\<close>,
  \<^verbatim>\<open>hashReader.Read\<close>, \<^verbatim>\<open>dstName\<close> and \<^verbatim>\<open>store\<close>.
  Go strings are byte strings, modelled as \<^typ>\<open>string\<close>. The packages the code calls
  (\<^verbatim>\<open>path\<close>, \<^verbatim>\<open>strings\<close>, \<^verbatim>\<open>io\<close>, \<^verbatim>\<open>os\<close>, \<^verbatim>\<open>net/http\<close>,
  \<^verbatim>\<open>compress/gzip\<close>, \<^verbatim>\<open>archive/tar\<close>, \<^verbatim>\<open>crypto/sha256\<close>) are modelled by
  what the code observes of them.
\<close>

subsection \<open>Errors\<close>

type_synonym byte = "8 word"

datatype errno = ENOENT | EEXIST | ENOTDIR | EISDIR | EACCES | EBADF | EPERM | ELOOP | EIO

text \<open>
  Every error value the code creates with \<^verbatim>\<open>fmt.Errorf\<close> is a constructor of its own,
  carrying the arguments of the format; errors of the libraries are \<open>EOF\<close>,
  \<open>Errno\<close> (package os) and \<open>ErrLibrary\<close> (network, gzip, tar, io).
\<close>

datatype error =
    EOF
  | Errno errno
  | ErrLibrary string
  | ErrExtension
  | ErrDstNotExist
  | ErrDstNotDir
  | ErrGoExists
  | ErrDownloading error
  | ErrStatus int string
  | ErrGzipReader error
  | ErrNextHeader error
  | ErrBadPath string string string
  | ErrExtracting error
  | ErrExtractingBytes int int
  | ErrChmod error
  | ErrClose error
  | ErrTypeflag byte
  | ErrChecksum string string

subsection \<open>Package path: Clean, Join, Dir\<close>

text \<open>
  \<^verbatim>\<open>path.Clean\<close> works on the elements between slashes: empty and \<^verbatim>\<open>.\<close> elements
  are dropped, \<^verbatim>\<open>..\<close> removes the element before it when there is one that is not
  itself \<^verbatim>\<open>..\<close>, is dropped at the root of a rooted path, and is kept otherwise. The
  result of an empty path, or of a relative path with nothing left, is \<^verbatim>\<open>.\<close>.
\<close>

fun splitSlash :: "string \<Rightarrow> string list" where
  "splitSlash [] = [[]]"
| "splitSlash (c # cs) =
     (if c = CHR ''/'' then [] # splitSlash cs
      else (case splitSlash cs of
              [] \<Rightarrow> [[c]]
            | e # es \<Rightarrow> (c # e) # es))"

fun joinSlash :: "string list \<Rightarrow> string" where
  "joinSlash [] = []"
| "joinSlash [e] = e"
| "joinSlash (e # es) = e @ CHR ''/'' # joinSlash es"

text \<open>\<open>out\<close> holds the elements written so far, the last one first.\<close>

fun cleanElems :: "bool \<Rightarrow> string list \<Rightarrow> string list \<Rightarrow> string list" where
  "cleanElems rooted out [] = rev out"
| "cleanElems rooted out (e # es) =
     (if e = [] \<or> e = ''.'' then cleanElems rooted out es
      else if e = ''..'' then
        (case out of
           [] \<Rightarrow> if rooted then cleanElems rooted [] es
                 else cleanElems rooted [''..''] es
         | t # ts \<Rightarrow> if t \<noteq> ''..'' then cleanElems rooted ts es
                     else cleanElems rooted (''..'' # out) es)
      else cleanElems rooted (e # out) es)"

definition path_Clean :: "string \<Rightarrow> string" where
  "path_Clean p =
     (if p = [] then ''.''
      else
        (let rooted = (hd p = CHR ''/'');
             out = cleanElems rooted [] (splitSlash p)
         in if rooted then CHR ''/'' # joinSlash out
            else if out = [] then ''.''
            else joinSlash out))"

text \<open>
  \<^verbatim>\<open>path.Join\<close>: the elements are joined with slashes, empty elements before the first
  non-empty one are skipped, and the result is cleaned; no bytes at all give the empty
  string.
\<close>

fun joinBuf :: "string \<Rightarrow> string list \<Rightarrow> string" where
  "joinBuf buf [] = buf"
| "joinBuf buf (e # es) =
     (if buf \<noteq> [] \<or> e \<noteq> [] then
        joinBuf ((if buf \<noteq> [] then buf @ ''/'' else buf) @ e) es
      else joinBuf buf es)"

definition path_Join :: "string list \<Rightarrow> string" where
  "path_Join elem =
     (if concat elem = [] then [] else path_Clean (joinBuf [] elem))"

text \<open>\<^verbatim>\<open>path.Dir\<close>: everything up to and including the last slash, cleaned.\<close>

fun lastSlash :: "string \<Rightarrow> string" where
  "lastSlash [] = []"
| "lastSlash (c # cs) =
     (if CHR ''/'' \<in> set cs then c # lastSlash cs
      else if c = CHR ''/'' then [c]
      else [])"

definition path_Dir :: "string \<Rightarrow> string" where
  "path_Dir p = path_Clean (lastSlash p)"

text \<open>\<^verbatim>\<open>path.IsAbs\<close>: the path begins with a slash.\<close>

definition path_IsAbs :: "string \<Rightarrow> bool" where
  "path_IsAbs p = (p \<noteq> [] \<and> hd p = CHR ''/'')"

subsection \<open>Package strings\<close>

definition strings_HasPrefix :: "string \<Rightarrow> string \<Rightarrow> bool" where
  "strings_HasPrefix s pre = prefix pre s"

definition strings_HasSuffix :: "string \<Rightarrow> string \<Rightarrow> bool" where
  "strings_HasSuffix s suf = suffix suf s"

subsection \<open>dstName\<close>

definition dstName :: "string \<Rightarrow> string \<Rightarrow> error + string" where
  "dstName dst name =
     (let r = path_Clean (path_Join [dst, name])
      in if \<not> strings_HasPrefix r dst then Inl (ErrBadPath name r dst)
         else Inr r)"

subsection \<open>Readers and the hashReader\<close>

text \<open>
  An \<^verbatim>\<open>io.Reader\<close> is modelled by the results its \<^verbatim>\<open>Read\<close> calls will give, in
  order: each is a chunk of bytes and an optional error (Go allows both at once). A call
  with a buffer shorter than the next chunk gets the front of the chunk and no error;
  after the last scripted result every call gives no bytes and \<open>EOF\<close>.
\<close>

type_synonym reader = "(byte list \<times> error option) list"

fun reader_Read :: "nat \<Rightarrow> reader \<Rightarrow> (byte list \<times> error option) \<times> reader" where
  "reader_Read n [] = (([], Some EOF), [])"
| "reader_Read n ((bs, e) # rest) =
     (if length bs \<le> n then ((bs, e), rest)
      else ((take n bs, None), (drop n bs, e) # rest))"

text \<open>
  The struct \<^verbatim>\<open>hashReader{r io.Reader; h hash.Hash}\<close>. The state of the hash is the
  sequence of bytes written to it so far; \<^verbatim>\<open>Sum\<close> is a function of that sequence.
\<close>

record hashReader =
  hr_r :: reader
  hr_h :: "byte list"

definition hash_Write :: "byte list \<Rightarrow> byte list \<Rightarrow> byte list" where
  "hash_Write st bs = st @ bs"

text \<open>
  \<^verbatim>\<open>Read(buf)\<close> with \<open>len(buf) = n\<close>: the result is the bytes \<^verbatim>\<open>buf[:n]\<close> returned,
  the error, and the hashReader afterwards.
\<close>

definition hashReader_Read ::
  "nat \<Rightarrow> hashReader \<Rightarrow> (byte list \<times> error option) \<times> hashReader" where
  "hashReader_Read n hr =
     (case reader_Read n (hr_r hr) of
        ((bs, err), r') \<Rightarrow>
          ((bs, err),
           \<lparr>hr_r = r',
            hr_h = (if length bs > 0 then hash_Write (hr_h hr) bs else hr_h hr)\<rparr>))"

subsection \<open>The file system and package os\<close>

text \<open>
  The file system is a map from keys to nodes, with the umask of the process. A key is
  the cleaned path of a node on which no element is a symbolic link; the working
  directory and the root are where a relative and a rooted path start, and need no node.
  A hard link is a second node with the same content. \<open>fault\<close> names the keys at
  which the system calls fail for a reason of the environment, such as \<open>EACCES\<close> for a
  missing permission. Apart from that an operation fails only for the state of the nodes:
  no quota, no I/O error.

  Every operation takes the file system and returns its error, if any, with the file
  system afterwards.
\<close>

type_synonym FileMode = "32 word"

datatype node = Directory FileMode | Regular "byte list" FileMode | Symlink string

record filesystem =
  nodes :: "string \<Rightarrow> node option"
  umask :: FileMode
  fault :: "string \<Rightarrow> errno option"

text \<open>
  The kernel resolves a path element by element. \<open>cur\<close> holds the elements of the
  directory reached, the last one first; \<^verbatim>\<open>..\<close> leaves a directory for its parent; an
  element that is a symbolic link is replaced by the elements of its target, which start
  over at the root when the target is rooted and at the directory of the link when it is
  not. The last element is followed only when \<open>follow\<close> is set. No more than 40 links
  are followed. The result is the key the path leads to, whether a node is there or not.
\<close>

definition pathElems :: "string \<Rightarrow> string list" where
  "pathElems p = filter (\<lambda>e. e \<noteq> [] \<and> e \<noteq> ''.'') (splitSlash p)"

definition keyOf :: "bool \<Rightarrow> string list \<Rightarrow> string" where
  "keyOf rooted cur =
     (if rooted then CHR ''/'' # joinSlash (rev cur)
      else if cur = [] then ''.''
      else joinSlash (rev cur))"

definition walkUp :: "bool \<Rightarrow> string list \<Rightarrow> string list" where
  "walkUp rooted cur =
     (case cur of
        [] \<Rightarrow> if rooted then [] else [''..'']
      | t # ts \<Rightarrow> if t \<noteq> ''..'' then ts else ''..'' # cur)"

fun walk ::
  "nat \<Rightarrow> filesystem \<Rightarrow> bool \<Rightarrow> bool \<Rightarrow> string list \<Rightarrow> string list \<Rightarrow> errno + string" where
  "walk n fs follow rooted cur [] = Inr (keyOf rooted cur)"
| "walk n fs follow rooted cur (e # es) =
     (if e = ''..'' then walk n fs follow rooted (walkUp rooted cur) es
      else
        (case fault fs (keyOf rooted (e # cur)) of
           Some err \<Rightarrow> Inl err
         | None \<Rightarrow>
             (case nodes fs (keyOf rooted (e # cur)) of
                None \<Rightarrow> if es = [] then Inr (keyOf rooted (e # cur)) else Inl ENOENT
              | Some (Directory m) \<Rightarrow> walk n fs follow rooted (e # cur) es
              | Some (Regular c m) \<Rightarrow>
                  if es = [] then Inr (keyOf rooted (e # cur)) else Inl ENOTDIR
              | Some (Symlink t) \<Rightarrow>
                  if es = [] \<and> \<not> follow then Inr (keyOf rooted (e # cur))
                  else
                    (case n of
                       0 \<Rightarrow> Inl ELOOP
                     | Suc k \<Rightarrow>
                         if path_IsAbs t then walk k fs follow True [] (pathElems t @ es)
                         else walk k fs follow rooted cur (pathElems t @ es)))))"

declare walk.simps [simp del]

definition fs_resolve :: "bool \<Rightarrow> filesystem \<Rightarrow> string \<Rightarrow> errno + string" where
  "fs_resolve follow fs p =
     (if p = [] then Inl ENOENT
      else walk 40 fs follow (path_IsAbs p) [] (pathElems p))"

definition fs_put :: "filesystem \<Rightarrow> string \<Rightarrow> node \<Rightarrow> filesystem" where
  "fs_put fs k n = fs\<lparr>nodes := (nodes fs)(k \<mapsto> n)\<rparr>"

definition IsDir :: "node \<Rightarrow> bool" where
  "IsDir n = (case n of Directory m \<Rightarrow> True | Regular c m \<Rightarrow> False | Symlink t \<Rightarrow> False)"

text \<open>\<^verbatim>\<open>os.Stat\<close> follows a link in the last element, \<^verbatim>\<open>os.Lstat\<close> does not.\<close>

definition os_Stat :: "string \<Rightarrow> filesystem \<Rightarrow> error + node" where
  "os_Stat p fs =
     (case fs_resolve True fs p of
        Inl e \<Rightarrow> Inl (Errno e)
      | Inr k \<Rightarrow> (case nodes fs k of None \<Rightarrow> Inl (Errno ENOENT) | Some n \<Rightarrow> Inr n))"

definition os_Lstat :: "string \<Rightarrow> filesystem \<Rightarrow> error + node" where
  "os_Lstat p fs =
     (case fs_resolve False fs p of
        Inl e \<Rightarrow> Inl (Errno e)
      | Inr k \<Rightarrow> (case nodes fs k of None \<Rightarrow> Inl (Errno ENOENT) | Some n \<Rightarrow> Inr n))"

definition os_IsNotExist :: "error \<Rightarrow> bool" where
  "os_IsNotExist err = (err = Errno ENOENT)"

text \<open>Octal 0777 is 511 and octal 0666 is 438.\<close>

definition os_ModePerm :: FileMode where
  "os_ModePerm = 511"

definition os_Mkdir :: "string \<Rightarrow> FileMode \<Rightarrow> filesystem \<Rightarrow> error option \<times> filesystem" where
  "os_Mkdir p perm fs =
     (case fs_resolve False fs p of
        Inl e \<Rightarrow> (Some (Errno e), fs)
      | Inr k \<Rightarrow>
          (case nodes fs k of
             Some n \<Rightarrow> (Some (Errno EEXIST), fs)
           | None \<Rightarrow> (None, fs_put fs k (Directory (perm AND NOT (umask fs))))))"

text \<open>
  \<^verbatim>\<open>os.MkdirAll\<close>: a path that is a directory is done, one that is something else is
  an error; otherwise the parent is made first, then the path, and a failure to make it
  is no error if the path is a directory by then. The recursion goes up one slash at a
  time.
\<close>

definition mkdirLast :: "string \<Rightarrow> FileMode \<Rightarrow> filesystem \<Rightarrow> error option \<times> filesystem" where
  "mkdirLast p perm fs =
     (case os_Mkdir p perm fs of
        (None, fs') \<Rightarrow> (None, fs')
      | (Some err, fs') \<Rightarrow>
          (case os_Lstat p fs' of
             Inr n \<Rightarrow> if IsDir n then (None, fs') else (Some err, fs')
           | Inl err1 \<Rightarrow> (Some err, fs')))"

fun mkdirAll :: "nat \<Rightarrow> string \<Rightarrow> FileMode \<Rightarrow> filesystem \<Rightarrow> error option \<times> filesystem" where
  "mkdirAll k p perm fs =
     (case os_Stat p fs of
        Inr n \<Rightarrow> if IsDir n then (None, fs) else (Some (Errno ENOTDIR), fs)
      | Inl e \<Rightarrow>
          (case k of
             0 \<Rightarrow> mkdirLast p perm fs
           | Suc j \<Rightarrow>
               (case mkdirAll j (path_Dir (path_Clean p)) perm fs of
                  (Some e', fs') \<Rightarrow> (Some e', fs')
                | (None, fs') \<Rightarrow> mkdirLast p perm fs')))"

declare mkdirAll.simps [simp del]

definition os_MkdirAll :: "string \<Rightarrow> FileMode \<Rightarrow> filesystem \<Rightarrow> error option \<times> filesystem" where
  "os_MkdirAll p perm fs =
     mkdirAll (length (filter (\<lambda>c. c = CHR ''/'') (path_Clean p))) p perm fs"

text \<open>
  \<^verbatim>\<open>os.Create\<close> opens with \<^verbatim>\<open>O_RDWR|O_CREATE|O_TRUNC\<close> and mode 0666, following a link
  in the last element: an existing file is emptied and keeps its mode, a missing one is
  made. The open file is named by its key.
\<close>

definition os_Create :: "string \<Rightarrow> filesystem \<Rightarrow> (error + string) \<times> filesystem" where
  "os_Create p fs =
     (case fs_resolve True fs p of
        Inl e \<Rightarrow> (Inl (Errno e), fs)
      | Inr k \<Rightarrow>
          (case nodes fs k of
             Some (Regular c m) \<Rightarrow> (Inr k, fs_put fs k (Regular [] m))
           | Some (Directory m) \<Rightarrow> (Inl (Errno EISDIR), fs)
           | Some (Symlink t) \<Rightarrow> (Inl (Errno ELOOP), fs)
           | None \<Rightarrow> (Inr k, fs_put fs k (Regular [] (438 AND NOT (umask fs))))))"

definition File_Write :: "string \<Rightarrow> byte list \<Rightarrow> filesystem \<Rightarrow> error option \<times> filesystem" where
  "File_Write f bs fs =
     (case nodes fs f of
        Some (Regular c m) \<Rightarrow> (None, fs_put fs f (Regular (c @ bs) m))
      | _ \<Rightarrow> (Some (Errno EBADF), fs))"

definition File_Chmod :: "string \<Rightarrow> FileMode \<Rightarrow> filesystem \<Rightarrow> error option \<times> filesystem" where
  "File_Chmod f mode fs =
     (case nodes fs f of
        Some (Regular c m) \<Rightarrow> (None, fs_put fs f (Regular c mode))
      | _ \<Rightarrow> (Some (Errno EBADF), fs))"

definition File_Close :: "string \<Rightarrow> filesystem \<Rightarrow> error option \<times> filesystem" where
  "File_Close f fs = (None, fs)"

text \<open>
  \<^verbatim>\<open>os.Link\<close> and \<^verbatim>\<open>os.Symlink\<close> follow no link in the last element of either name.
\<close>

definition os_Link :: "string \<Rightarrow> string \<Rightarrow> filesystem \<Rightarrow> error option \<times> filesystem" where
  "os_Link oldname newname fs =
     (case fs_resolve False fs oldname of
        Inl e \<Rightarrow> (Some (Errno e), fs)
      | Inr ko \<Rightarrow>
          (case nodes fs ko of
             None \<Rightarrow> (Some (Errno ENOENT), fs)
           | Some (Directory m) \<Rightarrow> (Some (Errno EPERM), fs)
           | Some n \<Rightarrow>
               (case fs_resolve False fs newname of
                  Inl e \<Rightarrow> (Some (Errno e), fs)
                | Inr kn \<Rightarrow>
                    (case nodes fs kn of
                       Some n' \<Rightarrow> (Some (Errno EEXIST), fs)
                     | None \<Rightarrow> (None, fs_put fs kn n)))))"

definition os_Symlink :: "string \<Rightarrow> string \<Rightarrow> filesystem \<Rightarrow> error option \<times> filesystem" where
  "os_Symlink oldname newname fs =
     (case fs_resolve False fs newname of
        Inl e \<Rightarrow> (Some (Errno e), fs)
      | Inr kn \<Rightarrow>
          (case nodes fs kn of
             Some n' \<Rightarrow> (Some (Errno EEXIST), fs)
           | None \<Rightarrow> (None, fs_put fs kn (Symlink oldname))))"

text \<open>
  \<^verbatim>\<open>os.RemoveAll\<close> removes the node the path leads to, without following a link in the
  last element, and everything below it; what it cannot reach stays. The keys below the
  path as it is written go as well: when the path does not lead to itself, an element of
  it is no directory and no path leads to those keys. Its error is ignored by the only
  caller, so the model returns the file system alone.
\<close>

definition fs_below :: "string \<Rightarrow> string \<Rightarrow> bool" where
  "fs_below q k = (k = q \<or> prefix (q @ ''/'') k)"

definition os_RemoveAll :: "string \<Rightarrow> filesystem \<Rightarrow> filesystem" where
  "os_RemoveAll p fs =
     fs\<lparr>nodes :=
          (\<lambda>k. if (fs_below (path_Clean p) k \<or>
                    (case fs_resolve False fs p of Inl e \<Rightarrow> False | Inr q \<Rightarrow> fs_below q k)) \<and>
                   fault fs k = None
                then None
                else nodes fs k)\<rparr>"

subsection \<open>Package io: LimitReader and Copy\<close>

record LimitedReader =
  lr_R :: reader
  lr_N :: int

definition io_LimitReader :: "reader \<Rightarrow> int \<Rightarrow> LimitedReader" where
  "io_LimitReader rd n = \<lparr>lr_R = rd, lr_N = n\<rparr>"

definition LimitedReader_Read ::
  "nat \<Rightarrow> LimitedReader \<Rightarrow> (byte list \<times> error option) \<times> LimitedReader" where
  "LimitedReader_Read n l =
     (if lr_N l \<le> 0 then (([], Some EOF), l)
      else
        (case reader_Read (if int n > lr_N l then nat (lr_N l) else n) (lr_R l) of
           ((bs, err), rd') \<Rightarrow>
             ((bs, err), \<lparr>lr_R = rd', lr_N = lr_N l - int (length bs)\<rparr>)))"

text \<open>
  \<^verbatim>\<open>io.Copy\<close> to the open file \<open>f\<close>. Its buffer has 32768 bytes, or as many as the
  LimitedReader has left when that is less (at least one). The loop reads a chunk, writes
  it, and stops at the first error; \<open>EOF\<close> is not reported. \<open>written\<close> counts the bytes
  written. (An empty buffer is a panic in \<^verbatim>\<open>io.CopyBuffer\<close>; \<^verbatim>\<open>io.Copy\<close> never has
  one.)
\<close>

function copyBuffer ::
  "nat \<Rightarrow> string \<Rightarrow> LimitedReader \<Rightarrow> int \<Rightarrow> filesystem \<Rightarrow> int \<times> error option \<times> filesystem" where
  "copyBuffer sz f src written fs =
     (if sz = 0 then (written, Some (ErrLibrary ''empty buffer in CopyBuffer''), fs)
      else
        (case LimitedReader_Read sz src of
           ((bs, er), src') \<Rightarrow>
             (case (if length bs > 0 then File_Write f bs fs else (None, fs)) of
                (Some ew, fs') \<Rightarrow> (written, Some ew, fs')
              | (None, fs') \<Rightarrow>
                  (case er of
                     Some e \<Rightarrow>
                       (written + int (length bs), if e \<noteq> EOF then Some e else None, fs')
                   | None \<Rightarrow> copyBuffer sz f src' (written + int (length bs)) fs'))))"
  by pat_completeness auto

definition reader_weight :: "reader \<Rightarrow> nat" where
  "reader_weight rd = sum_list (map (\<lambda>(bs, e). Suc (length bs)) rd)"

lemma reader_Read_weight:
  "0 < n \<Longrightarrow> reader_Read n rd = ((bs, None), rd') \<Longrightarrow> reader_weight rd' < reader_weight rd"
  by (cases rd) (auto simp: reader_weight_def split: if_splits)

lemma LimitedReader_Read_weight:
  "0 < n \<Longrightarrow> LimitedReader_Read n l = ((bs, None), l') \<Longrightarrow>
   reader_weight (lr_R l') < reader_weight (lr_R l)"
  by (auto simp: LimitedReader_Read_def split: if_splits prod.splits
           dest!: reader_Read_weight [rotated])

termination copyBuffer
  by (relation "measure (\<lambda>(sz, f, src, written, fs). reader_weight (lr_R src))")
     (auto dest: LimitedReader_Read_weight [rotated] sym)

declare copyBuffer.simps [simp del]

definition io_Copy :: "string \<Rightarrow> LimitedReader \<Rightarrow> filesystem \<Rightarrow> int \<times> error option \<times> filesystem" where
  "io_Copy f src fs =
     copyBuffer (if 32768 > lr_N src then (if lr_N src < 1 then 1 else nat (lr_N src)) else 32768)
       f src 0 fs"

subsection \<open>Package archive/tar: headers\<close>

text \<open>
  The fields of \<^verbatim>\<open>tar.Header\<close> the code reads. \<^verbatim>\<open>Size\<close> and \<^verbatim>\<open>Mode\<close> are
  \<^verbatim>\<open>int64\<close>: the size is only compared and counted down, so it is an \<^typ>\<open>int\<close>; the
  mode is converted to the 32 bits of \<^verbatim>\<open>os.FileMode\<close> and masked, so it is a word.
\<close>

record Header =
  Name :: string
  Typeflag :: byte
  Size :: int
  Mode :: "64 word"
  Linkname :: string

definition tar_TypeReg :: byte where "tar_TypeReg = 0x30"
definition tar_TypeLink :: byte where "tar_TypeLink = 0x31"
definition tar_TypeSymlink :: byte where "tar_TypeSymlink = 0x32"
definition tar_TypeDir :: byte where "tar_TypeDir = 0x35"
definition tar_TypeXGlobalHeader :: byte where "tar_TypeXGlobalHeader = 0x67"
definition tar_TypeGNUSparse :: byte where "tar_TypeGNUSparse = 0x53"

subsection \<open>store\<close>

text \<open>
  \<open>tr\<close> is the reader of the content of the current entry. The deferred \<^verbatim>\<open>f.Close()\<close>
  of the error paths changes nothing in the model.
\<close>

definition store ::
  "string \<Rightarrow> reader \<Rightarrow> Header \<Rightarrow> string \<Rightarrow> filesystem \<Rightarrow> error option \<times> filesystem" where
  "store dst tr h name fs0 =
     (let fs = snd (os_MkdirAll (path_Dir name) 511 fs0)
      in if Typeflag h = tar_TypeReg then
           (case os_Create name fs of
              (Inl err, fs1) \<Rightarrow> (Some err, fs1)
            | (Inr f, fs1) \<Rightarrow>
                (case io_Copy f (io_LimitReader tr (Size h)) fs1 of
                   (n, cerr, fs2) \<Rightarrow>
                     (case cerr of
                        Some err \<Rightarrow> (Some (ErrExtracting err), fs2)
                      | None \<Rightarrow>
                          if n \<noteq> Size h then (Some (ErrExtractingBytes n (Size h)), fs2)
                          else
                            (case File_Chmod f (ucast (Mode h) AND os_ModePerm) fs2 of
                               (Some err, fs3) \<Rightarrow> (Some (ErrChmod err), fs3)
                             | (None, fs3) \<Rightarrow>
                                 (case File_Close f fs3 of
                                    (Some err, fs4) \<Rightarrow> (Some (ErrClose err), fs4)
                                  | (None, fs4) \<Rightarrow> (None, fs4))))))
         else if Typeflag h = tar_TypeLink then
           (case dstName dst (Linkname h) of
              Inl err \<Rightarrow> (Some err, fs)
            | Inr linkname \<Rightarrow> os_Link linkname name fs)
         else if Typeflag h = tar_TypeSymlink then
           (case dstName dst (Linkname h) of
              Inl err \<Rightarrow> (Some err, fs)
            | Inr linkname \<Rightarrow> os_Symlink linkname name fs)
         else if Typeflag h = tar_TypeDir then os_Mkdir name 511 fs
         else if Typeflag h = tar_TypeXGlobalHeader \<or> Typeflag h = tar_TypeGNUSparse then
           (None, fs)
         else (Some (ErrTypeflag (Typeflag h)), fs))"

subsection \<open>The download: net/http, compress/gzip, archive/tar\<close>

text \<open>
  The fields of \<^verbatim>\<open>File\<close> and of \<^verbatim>\<open>http.Response\<close> that \<^verbatim>\<open>Fetch\<close> reads.
\<close>

record File =
  Filename :: string
  Sha256 :: string

record Response =
  StatusCode :: int
  Status :: string
  Body :: reader

text \<open>
  The gzip reader and the tar reader are libraries; the model records what \<^verbatim>\<open>Fetch\<close>
  sees of them for a given body. \<^verbatim>\<open>gzip.NewReader\<close> reads the gzip header and returns
  an error or not. Each \<^verbatim>\<open>tr.Next()\<close> returns a header, whose entry has a content
  reader, until the entries end with \<^verbatim>\<open>io.EOF\<close> (\<open>ar_end_err = None\<close>) or with an
  error. All of them read the raw bytes through the hashReader: \<open>ar_gzip_reads\<close>,
  \<open>te_reads\<close> and \<open>ar_end_reads\<close> count the \<^verbatim>\<open>Read\<close> calls (with the 4096-byte
  buffer of the gzip reader) made on it up to the moment the call returns.
\<close>

record tar_entry =
  te_reads :: nat
  te_header :: Header
  te_content :: reader

record archive =
  ar_gzip_reads :: nat
  ar_gzip_err :: "error option"
  ar_entries :: "tar_entry list"
  ar_end_reads :: nat
  ar_end_err :: "error option"

fun hashReader_Reads :: "nat \<Rightarrow> hashReader \<Rightarrow> hashReader" where
  "hashReader_Reads 0 hr = hr"
| "hashReader_Reads (Suc k) hr = hashReader_Reads k (snd (hashReader_Read 4096 hr))"

text \<open>\<^verbatim>\<open>fmt.Sprintf("%x", b)\<close> of a byte slice: two lower-case hex digits per byte.\<close>

definition hexDigit :: "nat \<Rightarrow> char" where
  "hexDigit d = ''0123456789abcdef'' ! d"

definition Sprintf_x :: "byte list \<Rightarrow> string" where
  "Sprintf_x bs = concat (map (\<lambda>b. [hexDigit (unat b div 16), hexDigit (unat b mod 16)]) bs)"

subsection \<open>Fetch\<close>

text \<open>The state \<^verbatim>\<open>Fetch\<close> acts on: the file system and the HTTP requests made so far.\<close>

record world =
  w_fs :: filesystem
  w_requests :: "string list"

text \<open>
  The loop over the entries of the archive. It returns the error, if any, the hashReader
  and the file system.
\<close>

fun extractLoop ::
  "string \<Rightarrow> tar_entry list \<Rightarrow> nat \<Rightarrow> error option \<Rightarrow> hashReader \<Rightarrow> filesystem \<Rightarrow>
   error option \<times> hashReader \<times> filesystem" where
  "extractLoop dst [] end_reads end_err hr fs =
     (case end_err of
        None \<Rightarrow> (None, hashReader_Reads end_reads hr, fs)
      | Some err \<Rightarrow> (Some (ErrNextHeader err), hashReader_Reads end_reads hr, fs))"
| "extractLoop dst (en # ens) end_reads end_err hr fs =
     (let hr' = hashReader_Reads (te_reads en) hr;
          h = te_header en
      in case dstName dst (Name h) of
           Inl err \<Rightarrow> (Some err, hr', fs)
         | Inr name \<Rightarrow>
             (case store dst (te_content en) h name fs of
                (Some err, fs') \<Rightarrow> (Some err, hr', fs')
              | (None, fs') \<Rightarrow> extractLoop dst ens end_reads end_err hr' fs'))"

text \<open>
  Lines 89 to 92: the digest \<^verbatim>\<open>hr.h.Sum(nil)\<close> is formatted and compared with the
  expected string. The message formats the string \<open>sum\<close> with \<^verbatim>\<open>%x\<close> once more.
\<close>

definition verifySum :: "byte list \<Rightarrow> string \<Rightarrow> error option" where
  "verifySum digest expected =
     (let sum = Sprintf_x digest
      in if sum \<noteq> expected then Some (ErrChecksum (Sprintf_x (map of_char sum)) expected)
         else None)"

text \<open>
  \<open>sha256_Sum\<close> is SHA-256, \<open>http_Get\<close> is the answer of the network to a URL and
  \<open>decode\<close> is what the gzip and tar readers make of a body. The deferred function of
  lines 62 to 66 runs on every return after it is set up: it is the \<^verbatim>\<open>os.RemoveAll\<close>
  of the three failing returns below it. The two deferred \<^verbatim>\<open>Close\<close> calls change
  nothing in the model.
\<close>

definition Fetch ::
  "(byte list \<Rightarrow> byte list) \<Rightarrow> (string \<Rightarrow> error + Response) \<Rightarrow> (reader \<Rightarrow> archive) \<Rightarrow>
   File \<Rightarrow> string \<Rightarrow> world \<Rightarrow> error option \<times> world" where
  "Fetch sha256_Sum http_Get decode file dst0 w =
     (if \<not> strings_HasSuffix (Filename file) ''.tar.gz'' then (Some ErrExtension, w)
      else
        (case os_Stat dst0 (w_fs w) of
           Inl err \<Rightarrow>
             if os_IsNotExist err then (Some ErrDstNotExist, w) else (Some err, w)
         | Inr fi \<Rightarrow>
             if \<not> IsDir fi then (Some ErrDstNotDir, w)
             else
               (case os_Stat (path_Join [dst0, ''go'']) (w_fs w) of
                  Inr fi' \<Rightarrow> (Some ErrGoExists, w)
                | Inl err' \<Rightarrow>
                    (let dst = path_Clean dst0 @ ''/'';
                         url = ''https://golang.org/dl/'' @ Filename file;
                         w1 = w\<lparr>w_requests := w_requests w @ [url]\<rparr>
                     in case http_Get url of
                          Inl err \<Rightarrow> (Some (ErrDownloading err), w1)
                        | Inr resp \<Rightarrow>
                            if StatusCode resp \<noteq> 200 then
                              (Some (ErrStatus (StatusCode resp) (Status resp)), w1)
                            else
                              (let hr = \<lparr>hr_r = Body resp, hr_h = []\<rparr>;
                                   ar = decode (Body resp);
                                   hr1 = hashReader_Reads (ar_gzip_reads ar) hr
                               in case ar_gzip_err ar of
                                    Some err \<Rightarrow> (Some (ErrGzipReader err), w1)
                                  | None \<Rightarrow>
                                      (case extractLoop dst (ar_entries ar) (ar_end_reads ar)
                                              (ar_end_err ar) hr1 (w_fs w1) of
                                         (Some err, hr2, fs2) \<Rightarrow>
                                           (Some err,
                                            w1\<lparr>w_fs := os_RemoveAll (path_Join [dst, ''go'']) fs2\<rparr>)
                                       | (None, hr2, fs2) \<Rightarrow>
                                           (case verifySum (sha256_Sum (hr_h hr2)) (Sha256 file) of
                                              Some err \<Rightarrow>
                                                (Some err,
                                                 w1\<lparr>w_fs := os_RemoveAll (path_Join [dst, ''go'']) fs2\<rparr>)
                                            | None \<Rightarrow> (None, w1\<lparr>w_fs := fs2\<rparr>))))))))"

subsection \<open>Sequences of reads\<close>

text \<open>
  A caller's successive \<^verbatim>\<open>Read\<close> calls, with buffers of the given lengths, on the
  wrapped reader alone and on the hashReader: the results in order, and the reader left.
\<close>

fun reader_ReadAll :: "nat list \<Rightarrow> reader \<Rightarrow> (byte list \<times> error option) list \<times> reader" where
  "reader_ReadAll [] rd = ([], rd)"
| "reader_ReadAll (n # ns) rd =
     (case reader_Read n rd of
        (res, rd') \<Rightarrow> (case reader_ReadAll ns rd' of (rs, rd'') \<Rightarrow> (res # rs, rd'')))"

fun hashReader_ReadAll ::
  "nat list \<Rightarrow> hashReader \<Rightarrow> (byte list \<times> error option) list \<times> hashReader" where
  "hashReader_ReadAll [] hr = ([], hr)"
| "hashReader_ReadAll (n # ns) hr =
     (case hashReader_Read n hr of
        (res, hr') \<Rightarrow> (case hashReader_ReadAll ns hr' of (rs, hr'') \<Rightarrow> (res # rs, hr'')))"

subsection \<open>What the properties speak of\<close>

text \<open>All the bytes a reader will give, whatever the lengths of the buffers.\<close>

definition reader_bytes :: "reader \<Rightarrow> byte list" where
  "reader_bytes rd = concat (map fst rd)"

text \<open>
  Equality of two hex strings up to the case of the letters, as the specification words
  the comparison of the digests.
\<close>

definition hexLower :: "char \<Rightarrow> char" where
  "hexLower c = (case map_of (zip ''ABCDEF'' ''abcdef'') c of None \<Rightarrow> c | Some d \<Rightarrow> d)"

definition hexEqualFold :: "string \<Rightarrow> string \<Rightarrow> bool" where
  "hexEqualFold a b = (map hexLower a = map hexLower b)"


text \<open>
  The checks of lines 21 to 38 pass: the file name has the extension, the destination is
  a directory, and \<^verbatim>\<open>os.Stat\<close> of its \<^verbatim>\<open>go\<close> returns an error.
\<close>

definition Fetch_validated :: "File \<Rightarrow> string \<Rightarrow> filesystem \<Rightarrow> bool" where
  "Fetch_validated file dst fs =
     (strings_HasSuffix (Filename file) ''.tar.gz'' \<and>
      (case os_Stat dst fs of Inl err \<Rightarrow> False | Inr fi \<Rightarrow> IsDir fi) \<and>
      (case os_Stat (path_Join [dst, ''go'']) fs of Inl err \<Rightarrow> True | Inr fi \<Rightarrow> False))"

text \<open>
  The download of lines 43 to 59 succeeds: a response with status 200 whose body the gzip
  reader accepts.
\<close>

definition Fetch_url :: "File \<Rightarrow> string" where
  "Fetch_url file = ''https://golang.org/dl/'' @ Filename file"

definition Fetch_downloaded ::
  "(string \<Rightarrow> error + Response) \<Rightarrow> (reader \<Rightarrow> archive) \<Rightarrow> File \<Rightarrow> bool" where
  "Fetch_downloaded http_Get decode file =
     (case http_Get (Fetch_url file) of
        Inl err \<Rightarrow> False
      | Inr resp \<Rightarrow> StatusCode resp = 200 \<and> ar_gzip_err (decode (Body resp)) = None)"

text \<open>
  The loop as \<^verbatim>\<open>Fetch\<close> runs it on a response: on the entries of the decoded body, with
  the hashReader as the gzip reader has left it, from the given file system.
\<close>

definition Fetch_loop ::
  "(reader \<Rightarrow> archive) \<Rightarrow> string \<Rightarrow> Response \<Rightarrow> filesystem \<Rightarrow>
   error option \<times> hashReader \<times> filesystem" where
  "Fetch_loop decode dst resp fs =
     extractLoop (path_Clean dst @ ''/'') (ar_entries (decode (Body resp)))
       (ar_end_reads (decode (Body resp))) (ar_end_err (decode (Body resp)))
       (hashReader_Reads (ar_gzip_reads (decode (Body resp))) \<lparr>hr_r = Body resp, hr_h = []\<rparr>)
       fs"

subsection \<open>Examples\<close>

text \<open>
  A destination \<^verbatim>\<open>tmp\<close> that is an empty directory of mode 0755 (493), with umask 022
  (18) and no faults.
\<close>

definition ex_fs :: filesystem where
  "ex_fs = \<lparr>nodes = [''tmp'' \<mapsto> Directory 493], umask = 18, fault = (\<lambda>p. None)\<rparr>"

definition ex_world :: world where
  "ex_world = \<lparr>w_fs = ex_fs, w_requests = []\<rparr>"

text \<open>Headers: mode 0644 is 420, mode 0700 is 448, mode 0755 is 493.\<close>

definition ex_version :: Header where
  "ex_version =
     \<lparr>Name = ''go/VERSION'', Typeflag = tar_TypeReg, Size = 3, Mode = 420, Linkname = []\<rparr>"

definition ex_dir :: Header where
  "ex_dir = \<lparr>Name = ''go/pkg'', Typeflag = tar_TypeDir, Size = 0, Mode = 448, Linkname = []\<rparr>"

definition ex_symlink :: Header where
  "ex_symlink =
     \<lparr>Name = ''go/bin/go'', Typeflag = tar_TypeSymlink, Size = 0, Mode = 511,
      Linkname = ''go/pkg/tool/go''\<rparr>"

definition ex_symlink_out :: Header where
  "ex_symlink_out =
     \<lparr>Name = ''go/bin/go'', Typeflag = tar_TypeSymlink, Size = 0, Mode = 511,
      Linkname = ''../etc/passwd''\<rparr>"

definition ex_global :: Header where
  "ex_global =
     \<lparr>Name = ''go/pax_global_header'', Typeflag = tar_TypeXGlobalHeader, Size = 0, Mode = 420,
      Linkname = []\<rparr>"

definition ex_fifo :: Header where
  "ex_fifo = \<lparr>Name = ''go/fifo'', Typeflag = 0x36, Size = 0, Mode = 420, Linkname = []\<rparr>"

definition ex_outside :: Header where
  "ex_outside =
     \<lparr>Name = ''README'', Typeflag = tar_TypeReg, Size = 2, Mode = 420, Linkname = []\<rparr>"

definition ex_escape :: Header where
  "ex_escape =
     \<lparr>Name = ''../etc/passwd'', Typeflag = tar_TypeReg, Size = 2, Mode = 420, Linkname = []\<rparr>"

text \<open>Entries of an archive, and a hashReader on a body of two chunks.\<close>

definition ex_entry_escape :: tar_entry where
  "ex_entry_escape = \<lparr>te_reads = 1, te_header = ex_escape, te_content = [([1, 2], None)]\<rparr>"

definition ex_hr :: hashReader where
  "ex_hr = \<lparr>hr_r = [([31, 139, 8], None), ([0], None)], hr_h = []\<rparr>"

definition ex_sparse :: Header where
  "ex_sparse =
     \<lparr>Name = ''go/data/disk.img'', Typeflag = tar_TypeGNUSparse, Size = 0, Mode = 420,
      Linkname = []\<rparr>"

text \<open>The content of \<^verbatim>\<open>go/VERSION\<close>, in two chunks, the second with \<open>EOF\<close>.\<close>

definition ex_content :: reader where
  "ex_content = [([103, 111], None), ([49], Some EOF)]"

text \<open>
  A download: the file descriptor with its expected digest in lower case and in upper
  case, a digest of 32 bytes, the response, and what the gzip and tar readers make of
  its body: the entries \<^verbatim>\<open>go/VERSION\<close> and \<^verbatim>\<open>README\<close>, ended by \<^verbatim>\<open>io.EOF\<close> or cut
  short.
\<close>

definition ex_digest :: "byte list" where
  "ex_digest =
     [0x2e, 0x3b, 0xc9, 0x1e, 0x16, 0x19, 0x70, 0x8c, 0xa8, 0x40, 0x48, 0xe4, 0xfa,
      0x2e, 0x45, 0x00, 0xb5, 0x0d, 0xfb, 0xc6, 0x34, 0xfd, 0x03, 0x5f, 0x37, 0xa8,
      0x7e, 0x5d, 0x9d, 0xa6, 0x0e, 0x50]"

definition ex_file :: File where
  "ex_file =
     \<lparr>Filename = ''go1.21.0.linux-amd64.tar.gz'',
      Sha256 = ''2e3bc91e1619708ca84048e4fa2e4500b50dfbc634fd035f37a87e5d9da60e50''\<rparr>"

definition ex_file_upper :: File where
  "ex_file_upper =
     \<lparr>Filename = ''go1.21.0.linux-amd64.tar.gz'',
      Sha256 = ''2E3BC91E1619708CA84048E4FA2E4500B50DFBC634FD035F37A87E5D9DA60E50''\<rparr>"

definition ex_resp :: Response where
  "ex_resp = \<lparr>StatusCode = 200, Status = ''200 OK'', Body = [([31, 139, 8], None), ([0], None)]\<rparr>"

definition ex_entry_version :: tar_entry where
  "ex_entry_version = \<lparr>te_reads = 1, te_header = ex_version, te_content = ex_content\<rparr>"

definition ex_entry_outside :: tar_entry where
  "ex_entry_outside =
     \<lparr>te_reads = 0, te_header = ex_outside, te_content = [([104, 105], Some EOF)]\<rparr>"

definition ex_archive :: archive where
  "ex_archive =
     \<lparr>ar_gzip_reads = 1, ar_gzip_err = None,
      ar_entries = [ex_entry_version, ex_entry_outside],
      ar_end_reads = 1, ar_end_err = None\<rparr>"


text \<open>The destination with a \<^verbatim>\<open>go\<close> directory, and with a \<^verbatim>\<open>go\<close> that cannot be reached.\<close>

definition ex_fs_go :: filesystem where
  "ex_fs_go =
     \<lparr>nodes = [''tmp'' \<mapsto> Directory 493, ''tmp/go'' \<mapsto> Directory 493], umask = 18,
      fault = (\<lambda>p. None)\<rparr>"

definition ex_fs_denied :: filesystem where
  "ex_fs_denied =
     \<lparr>nodes = [''tmp'' \<mapsto> Directory 493], umask = 18,
      fault = (\<lambda>p. if p = ''tmp/go'' then Some EACCES else None)\<rparr>"

text \<open>
  The destination with a \<^verbatim>\<open>go\<close> directory that cannot be reached; the destination
  where \<^verbatim>\<open>tmp/go\<close> is a link to the directory \<^verbatim>\<open>tmp/real\<close> and \<^verbatim>\<open>tmp/real/VERSION\<close>
  a link to \<^verbatim>\<open>v\<close>; and the destination \<^verbatim>\<open>/opt\<close>.
\<close>

definition ex_fs_go_denied :: filesystem where
  "ex_fs_go_denied =
     \<lparr>nodes = [''tmp'' \<mapsto> Directory 493, ''tmp/go'' \<mapsto> Directory 493], umask = 18,
      fault = (\<lambda>p. if p = ''tmp/go'' then Some EACCES else None)\<rparr>"

definition ex_fs_links :: filesystem where
  "ex_fs_links =
     \<lparr>nodes = [''tmp'' \<mapsto> Directory 493, ''tmp/real'' \<mapsto> Directory 493,
               ''tmp/go'' \<mapsto> Symlink ''real'', ''tmp/real/VERSION'' \<mapsto> Symlink ''v''],
      umask = 18, fault = (\<lambda>p. None)\<rparr>"

definition ex_world_opt :: world where
  "ex_world_opt =
     \<lparr>w_fs = \<lparr>nodes = [''/opt'' \<mapsto> Directory 493], umask = 18, fault = (\<lambda>p. None)\<rparr>,
      w_requests = []\<rparr>"

text \<open>An archive with the file \<^verbatim>\<open>go/pkg/tool/go\<close> and the link \<^verbatim>\<open>go/bin/go\<close> to it.\<close>

definition ex_tool :: Header where
  "ex_tool =
     \<lparr>Name = ''go/pkg/tool/go'', Typeflag = tar_TypeReg, Size = 2, Mode = 493, Linkname = []\<rparr>"

definition ex_archive_links :: archive where
  "ex_archive_links =
     \<lparr>ar_gzip_reads = 1, ar_gzip_err = None,
      ar_entries =
        [\<lparr>te_reads = 1, te_header = ex_tool, te_content = [([127, 69], Some EOF)]\<rparr>,
         \<lparr>te_reads = 0, te_header = ex_symlink, te_content = []\<rparr>],
      ar_end_reads = 1, ar_end_err = None\<rparr>"

section \<open>Properties\<close>

subsection \<open>The hashReader\<close>

lemma hashReader_Read_eq:
  "hashReader_Read n hr =
     (fst (reader_Read n (hr_r hr)),
      \<lparr>hr_r = snd (reader_Read n (hr_r hr)),
       hr_h = hr_h hr @ fst (fst (reader_Read n (hr_r hr)))\<rparr>)"
  by (simp add: hashReader_Read_def hash_Write_def split: prod.splits)

lemma hashReader_ReadAll_eq:
  "hashReader_ReadAll ns hr =
     (fst (reader_ReadAll ns (hr_r hr)),
      \<lparr>hr_r = snd (reader_ReadAll ns (hr_r hr)),
       hr_h = hr_h hr @ concat (map fst (fst (reader_ReadAll ns (hr_r hr))))\<rparr>)"
proof (induction ns arbitrary: hr)
  case Nil
  show ?case by simp
next
  case (Cons n ns)
  show ?case
    by (simp add: hashReader_Read_eq Cons.IH split: prod.splits)
qed

text \<open>
  C8. A \<^verbatim>\<open>Read\<close> on the hashReader returns the bytes and the error that the wrapped
  reader returns for that read, and leaves the wrapped reader as that read leaves it; the
  bytes returned are appended to what the hash has been given, whatever the error is.
  Over any sequence of reads the results are those of the wrapped reader, and the hash
  has been given the returned chunks in the order of the reads.
\<close>

theorem hashReader_Read_digests_what_it_returns:
  "fst (hashReader_Read n hr) = fst (reader_Read n (hr_r hr)) \<and>
   hr_r (snd (hashReader_Read n hr)) = snd (reader_Read n (hr_r hr)) \<and>
   hr_h (snd (hashReader_Read n hr)) = hr_h hr @ fst (fst (hashReader_Read n hr)) \<and>
   fst (hashReader_ReadAll ns hr) = fst (reader_ReadAll ns (hr_r hr)) \<and>
   hr_h (snd (hashReader_ReadAll ns hr)) =
     hr_h hr @ concat (map fst (fst (hashReader_ReadAll ns hr)))"
  by (simp add: hashReader_Read_eq hashReader_ReadAll_eq)

subsection \<open>Facts about the file system operations\<close>

lemmas tar_Type_defs =
  tar_TypeReg_def tar_TypeLink_def tar_TypeSymlink_def tar_TypeDir_def
  tar_TypeXGlobalHeader_def tar_TypeGNUSparse_def

lemma fs_put_frame:
  "umask (fs_put fs p n) = umask fs \<and> fault (fs_put fs p n) = fault fs"
  by (simp add: fs_put_def)

lemma os_Mkdir_frame:
  "umask (snd (os_Mkdir p perm fs)) = umask fs \<and> fault (snd (os_Mkdir p perm fs)) = fault fs"
  by (simp add: os_Mkdir_def fs_put_def split: sum.splits option.splits)

lemma mkdirLast_frame:
  "umask (snd (mkdirLast p perm fs)) = umask fs \<and> fault (snd (mkdirLast p perm fs)) = fault fs"
proof -
  obtain r fs' where m: "os_Mkdir p perm fs = (r, fs')"
    by (metis prod.exhaust)
  with os_Mkdir_frame [of p perm fs] have "umask fs' = umask fs" "fault fs' = fault fs"
    by simp_all
  with m show ?thesis
    by (simp add: mkdirLast_def split: option.splits sum.splits)
qed

lemma mkdirAll_frame:
  "umask (snd (mkdirAll k p perm fs)) = umask fs \<and> fault (snd (mkdirAll k p perm fs)) = fault fs"
proof (induction k arbitrary: p)
  case 0
  show ?case
    by (simp add: mkdirAll.simps [of 0] mkdirLast_frame split: sum.splits)
next
  case (Suc k)
  obtain r fs1 where m: "mkdirAll k (path_Dir (path_Clean p)) perm fs = (r, fs1)"
    by (metis prod.exhaust)
  with Suc.IH [of "path_Dir (path_Clean p)"]
  have e: "umask fs1 = umask fs" "fault fs1 = fault fs"
    by simp_all
  have "umask (snd (mkdirLast p perm fs1)) = umask fs"
       "fault (snd (mkdirLast p perm fs1)) = fault fs"
    using mkdirLast_frame [of p perm fs1] e by simp_all
  with m e show ?case
    by (simp add: mkdirAll.simps [of "Suc k"] split: sum.splits option.splits)
qed

lemma os_MkdirAll_frame:
  "umask (snd (os_MkdirAll p perm fs)) = umask fs \<and>
   fault (snd (os_MkdirAll p perm fs)) = fault fs"
  unfolding os_MkdirAll_def by (rule mkdirAll_frame)

text \<open>What a successful call has made, and where.\<close>

lemma os_Mkdir_ok:
  "os_Mkdir p perm fs = (None, fs') \<Longrightarrow>
   \<exists>k. fs_resolve False fs p = Inr k \<and> nodes fs k = None \<and>
       nodes fs' k = Some (Directory (perm AND NOT (umask fs)))"
  by (auto simp: os_Mkdir_def fs_put_def split: sum.splits option.splits)

lemma os_Create_ok:
  "os_Create p fs = (Inr f, fs') \<Longrightarrow>
   fs_resolve True fs p = Inr f \<and> (\<exists>m. nodes fs' f = Some (Regular [] m))"
  by (auto simp: os_Create_def fs_put_def split: sum.splits option.splits node.splits)

lemma File_Write_Regular:
  "nodes fs f = Some (Regular c m) \<Longrightarrow>
   File_Write f bs fs = (None, fs_put fs f (Regular (c @ bs) m))"
  by (simp add: File_Write_def)

lemma File_Chmod_Regular:
  "nodes fs f = Some (Regular c m) \<Longrightarrow>
   File_Chmod f mode fs = (None, fs_put fs f (Regular c mode))"
  by (simp add: File_Chmod_def)

subsection \<open>Facts about the readers and the copy\<close>

lemma reader_Read_bytes:
  "reader_Read n rd = ((bs, e), rd') \<Longrightarrow>
   reader_bytes rd = bs @ reader_bytes rd' \<and> length bs \<le> n"
  by (cases rd) (auto simp: reader_bytes_def split: if_splits)

lemma LimitedReader_Read_bytes:
  assumes "LimitedReader_Read n l = ((bs, e), l')"
  shows "reader_bytes (lr_R l) = bs @ reader_bytes (lr_R l') \<and>
         int (length bs) \<le> max 0 (lr_N l) \<and>
         lr_N l' = lr_N l - int (length bs)"
proof (cases "lr_N l \<le> 0")
  case True
  with assms show ?thesis by (auto simp: LimitedReader_Read_def)
next
  case False
  with assms show ?thesis
    by (auto simp: LimitedReader_Read_def split: prod.splits if_splits
             dest!: reader_Read_bytes)
qed

text \<open>
  The copy appends to the file a front part of the bytes of the reader, no longer than
  the limit, and counts its length.
\<close>

lemma copyBuffer_result:
  "copyBuffer sz f src written fs = (n, cerr, fs') \<Longrightarrow> 0 < sz \<Longrightarrow>
   nodes fs f = Some (Regular c m) \<Longrightarrow>
   \<exists>bs. n = written + int (length bs) \<and> prefix bs (reader_bytes (lr_R src)) \<and>
        int (length bs) \<le> max 0 (lr_N src) \<and>
        nodes fs' f = Some (Regular (c @ bs) m)"
proof (induction sz f src written fs arbitrary: c rule: copyBuffer.induct)
  case (1 sz f src written fs)
  obtain bs er src' where rd: "LimitedReader_Read sz src = ((bs, er), src')"
    by (metis prod.exhaust)
  note lb = LimitedReader_Read_bytes [OF rd]
  let ?fs1 = "if length bs > 0 then fs_put fs f (Regular (c @ bs) m) else fs"
  have w: "(if length bs > 0 then File_Write f bs fs else (None, fs)) = (None, ?fs1)"
    using "1.prems"(3) by (simp add: File_Write_Regular)
  have n1: "nodes ?fs1 f = Some (Regular (c @ bs) m)"
    using "1.prems"(3) by (simp add: fs_put_def)
  show ?case
  proof (cases er)
    case (Some e)
    with "1.prems" rd w have "n = written + int (length bs)" "fs' = ?fs1"
      by (auto simp: copyBuffer.simps [of sz f src written fs] split: if_splits)
    with lb n1 show ?thesis by (intro exI [of _ bs]) auto
  next
    case None
    with "1.prems" rd w
    have rec: "copyBuffer sz f src' (written + int (length bs)) ?fs1 = (n, cerr, fs')"
      by (auto simp: copyBuffer.simps [of sz f src written fs] split: if_splits)
    have "\<exists>bs'. n = written + int (length bs) + int (length bs') \<and>
            prefix bs' (reader_bytes (lr_R src')) \<and>
            int (length bs') \<le> max 0 (lr_N src') \<and>
            nodes fs' f = Some (Regular ((c @ bs) @ bs') m)"
      using "1.IH" [of "(bs, er)" src' bs er None ?fs1 "c @ bs"] rd w None rec n1 "1.prems"(2)
      by (simp add: add.assoc)
    then obtain bs' where b: "n = written + int (length bs) + int (length bs')"
      "prefix bs' (reader_bytes (lr_R src'))" "int (length bs') \<le> max 0 (lr_N src')"
      "nodes fs' f = Some (Regular ((c @ bs) @ bs') m)" by blast
    with lb show ?thesis by (intro exI [of _ "bs @ bs'"]) auto
  qed
qed

lemma io_Copy_result:
  assumes "io_Copy f (io_LimitReader tr sz) fs = (n, cerr, fs')"
    and "nodes fs f = Some (Regular [] m)"
  shows "0 \<le> n \<and> n \<le> max 0 sz \<and>
         nodes fs' f = Some (Regular (take (nat n) (reader_bytes tr)) m)"
proof -
  let ?l = "io_LimitReader tr sz"
  let ?b = "if 32768 > lr_N ?l then (if lr_N ?l < 1 then 1 else nat (lr_N ?l)) else (32768::nat)"
  have c: "copyBuffer ?b f ?l 0 fs = (n, cerr, fs')"
    using assms(1) by (simp only: io_Copy_def)
  have "0 < ?b" by simp
  from copyBuffer_result [OF c this, of "[]" m] assms(2)
  obtain bs where b: "n = int (length bs)" "prefix bs (reader_bytes tr)"
      "int (length bs) \<le> max 0 sz" "nodes fs' f = Some (Regular bs m)"
    by (auto simp: io_LimitReader_def)
  from b(2) have "bs = take (length bs) (reader_bytes tr)"
    by (auto simp: prefix_def)
  with b show ?thesis by simp
qed

subsection \<open>Facts about dstName and store\<close>

lemma dstName_eq:
  "dstName dst name =
     (if prefix dst (path_Clean (path_Join [dst, name]))
      then Inr (path_Clean (path_Join [dst, name]))
      else Inl (ErrBadPath name (path_Clean (path_Join [dst, name])) dst))"
  by (simp add: dstName_def strings_HasPrefix_def Let_def)

lemma store_Symlink:
  "Typeflag h = tar_TypeSymlink \<Longrightarrow>
   store dst tr h name fs =
     (case dstName dst (Linkname h) of
        Inl err \<Rightarrow> (Some err, snd (os_MkdirAll (path_Dir name) 511 fs))
      | Inr linkname \<Rightarrow> os_Symlink linkname name (snd (os_MkdirAll (path_Dir name) 511 fs)))"
  by (simp add: store_def Let_def tar_Type_defs)

lemma store_Link:
  "Typeflag h = tar_TypeLink \<Longrightarrow>
   store dst tr h name fs =
     (case dstName dst (Linkname h) of
        Inl err \<Rightarrow> (Some err, snd (os_MkdirAll (path_Dir name) 511 fs))
      | Inr linkname \<Rightarrow> os_Link linkname name (snd (os_MkdirAll (path_Dir name) 511 fs)))"
  by (simp add: store_def Let_def tar_Type_defs)

lemma store_Dir:
  "Typeflag h = tar_TypeDir \<Longrightarrow>
   store dst tr h name fs = os_Mkdir name 511 (snd (os_MkdirAll (path_Dir name) 511 fs))"
  by (simp add: store_def Let_def tar_Type_defs)

lemma store_Reg:
  "Typeflag h = tar_TypeReg \<Longrightarrow>
   os_Create name (snd (os_MkdirAll (path_Dir name) 511 fs)) = (Inr f, fs1) \<Longrightarrow>
   io_Copy f (io_LimitReader tr (Size h)) fs1 = (n, cerr, fs2) \<Longrightarrow>
   store dst tr h name fs =
     (case cerr of
        Some err \<Rightarrow> (Some (ErrExtracting err), fs2)
      | None \<Rightarrow>
          if n \<noteq> Size h then (Some (ErrExtractingBytes n (Size h)), fs2)
          else (case File_Chmod f (ucast (Mode h) AND os_ModePerm) fs2 of
                  (Some err, fs3) \<Rightarrow> (Some (ErrChmod err), fs3)
                | (None, fs3) \<Rightarrow> (None, fs3)))"
  by (simp add: store_def Let_def File_Close_def split: option.splits prod.splits)

subsection \<open>The path check\<close>

text \<open>
  C1, as the code has it. The path of an entry, joined to \<open>dst\<close> and cleaned, must have
  the string \<open>dst\<close> as a prefix: \<open>dst\<close> is the cleaned destination with a slash, not
  the \<^verbatim>\<open>go\<close> directory below it. A name that fails the check ends the loop with the
  bad-path error and the file system as it was before the entry. For a hard link or a
  symbolic link the target is checked in the same way inside \<^verbatim>\<open>store\<close>, after the
  parent directories of the entry have been made and before the link is: a target that
  fails is rejected with the bad-path error and the link is not made.
\<close>

theorem dstName_checks_prefix_of_dst:
  "dstName dst name =
     (if prefix dst (path_Clean (path_Join [dst, name]))
      then Inr (path_Clean (path_Join [dst, name]))
      else Inl (ErrBadPath name (path_Clean (path_Join [dst, name])) dst)) \<and>
   (\<not> prefix dst (path_Clean (path_Join [dst, Name (te_header en)])) \<longrightarrow>
      extractLoop dst (en # ens) end_reads end_err hr fs =
        (Some (ErrBadPath (Name (te_header en))
                 (path_Clean (path_Join [dst, Name (te_header en)])) dst),
         hashReader_Reads (te_reads en) hr, fs)) \<and>
   ((Typeflag h = tar_TypeLink \<or> Typeflag h = tar_TypeSymlink) \<and>
    \<not> prefix dst (path_Clean (path_Join [dst, Linkname h])) \<longrightarrow>
      store dst tr h nm fs =
        (Some (ErrBadPath (Linkname h) (path_Clean (path_Join [dst, Linkname h])) dst),
         snd (os_MkdirAll (path_Dir nm) 511 fs)))"
  by (auto simp: dstName_eq store_Link store_Symlink Let_def)

theorem dstName_checks_prefix_of_dst_witness:
  "\<not> prefix ''tmp/'' (path_Clean (path_Join [''tmp/'', Name (te_header ex_entry_escape)])) \<and>
   extractLoop ''tmp/'' [ex_entry_escape] 0 None ex_hr ex_fs =
     (Some (ErrBadPath (Name (te_header ex_entry_escape))
              (path_Clean (path_Join [''tmp/'', Name (te_header ex_entry_escape)])) ''tmp/''),
      hashReader_Reads (te_reads ex_entry_escape) ex_hr, ex_fs) \<and>
   Typeflag ex_symlink_out = tar_TypeSymlink \<and>
   \<not> prefix ''tmp/'' (path_Clean (path_Join [''tmp/'', Linkname ex_symlink_out])) \<and>
   store ''tmp/'' [] ex_symlink_out ''tmp/go/bin/go'' ex_fs =
     (Some (ErrBadPath (Linkname ex_symlink_out)
              (path_Clean (path_Join [''tmp/'', Linkname ex_symlink_out])) ''tmp/''),
      snd (os_MkdirAll (path_Dir ''tmp/go/bin/go'') 511 ex_fs)) \<and>
   path_Clean (path_Join [''tmp/'', ''../etc/passwd'']) = ''etc/passwd'' \<and>
   nodes (snd (store ''tmp/'' [] ex_symlink_out ''tmp/go/bin/go'' ex_fs)) ''tmp/go/bin/go'' = None"
proof -
  have p: "\<not> prefix ''tmp/'' (path_Clean (path_Join [''tmp/'', Name (te_header ex_entry_escape)]))"
    by code_simp
  have q: "\<not> prefix ''tmp/'' (path_Clean (path_Join [''tmp/'', Linkname ex_symlink_out]))"
    by code_simp
  have t: "Typeflag ex_symlink_out = tar_TypeSymlink"
    by (simp add: ex_symlink_out_def)
  have c: "path_Clean (path_Join [''tmp/'', ''../etc/passwd'']) = ''etc/passwd''"
    by code_simp
  have e: "nodes (snd (store ''tmp/'' [] ex_symlink_out ''tmp/go/bin/go'' ex_fs)) ''tmp/go/bin/go'' = None"
    by code_simp
  from dstName_checks_prefix_of_dst
         [of "''tmp/''" "[]" ex_entry_escape "[]" 0 None ex_hr ex_fs ex_symlink_out "[]"
             "''tmp/go/bin/go''"]
  show ?thesis
    using p q t c e by blast
qed

text \<open>
  C1 as stated fails. With destination \<^verbatim>\<open>tmp\<close> the entry \<^verbatim>\<open>README\<close> passes the check
  although its path \<^verbatim>\<open>tmp/README\<close> is not within \<^verbatim>\<open>tmp/go/\<close>; and the symbolic link
  \<^verbatim>\<open>go/bin/go\<close> with the target \<^verbatim>\<open>../etc/passwd\<close> is rejected only after the directory
  \<^verbatim>\<open>tmp/go/bin\<close> has been made.
\<close>

theorem dstName_extraction_root_counterexample:
  "path_Clean ''tmp'' @ ''/'' = ''tmp/'' \<and>
   path_Join [''tmp'', ''go''] @ ''/'' = ''tmp/go/'' \<and>
   dstName ''tmp/'' ''README'' = Inr ''tmp/README'' \<and>
   \<not> prefix ''tmp/go/'' ''tmp/README'' \<and>
   fst (store ''tmp/'' [] ex_symlink_out ''tmp/go/bin/go'' ex_fs) =
     Some (ErrBadPath ''../etc/passwd'' ''etc/passwd'' ''tmp/'') \<and>
   nodes ex_fs ''tmp/go/bin'' = None \<and>
   nodes (snd (store ''tmp/'' [] ex_symlink_out ''tmp/go/bin/go'' ex_fs)) ''tmp/go/bin'' =
     Some (Directory 493)"
  by code_simp

text \<open>
  The check is one of strings. For a destination made of \<^verbatim>\<open>..\<close> elements only it
  does not keep the entries below the destination: with the destination \<^verbatim>\<open>..\<close> the
  name \<^verbatim>\<open>../x\<close> passes and gives \<^verbatim>\<open>../../x\<close>.
\<close>

lemma dstName_dotdot_destination:
  "path_Clean ''..'' @ ''/'' = ''../'' \<and> dstName ''../'' ''../x'' = Inr ''../../x''"
  by code_simp

subsection \<open>Regular files\<close>

text \<open>
  C5. For a regular-file entry \<^verbatim>\<open>os.Create\<close> opens the file \<open>f\<close> that the name leads
  to. \<^verbatim>\<open>io.Copy\<close> writes to it a front part of the bytes of the entry, at most
  \<open>Size\<close> of them, and counts them in \<open>n\<close>. \<^verbatim>\<open>store\<close> fails with the error of the
  copy if there is one, and with the byte-count error whenever \<open>n\<close> differs from
  \<open>Size\<close>. Otherwise it succeeds, the file holds the first \<open>Size\<close> bytes of the entry,
  and its mode is the low nine bits of \<open>Mode\<close>.
\<close>

theorem store_regular_file:
  assumes "Typeflag h = tar_TypeReg"
    and "os_Create name (snd (os_MkdirAll (path_Dir name) 511 fs)) = (Inr f, fs1)"
    and "io_Copy f (io_LimitReader tr (Size h)) fs1 = (n, cerr, fs2)"
  shows "fs_resolve True (snd (os_MkdirAll (path_Dir name) 511 fs)) name = Inr f \<and>
         0 \<le> n \<and> n \<le> max 0 (Size h) \<and>
         (\<exists>m. nodes fs2 f = Some (Regular (take (nat n) (reader_bytes tr)) m)) \<and>
         (\<forall>err. cerr = Some err \<longrightarrow>
            store dst tr h name fs = (Some (ErrExtracting err), fs2)) \<and>
         (cerr = None \<and> n \<noteq> Size h \<longrightarrow>
            store dst tr h name fs = (Some (ErrExtractingBytes n (Size h)), fs2)) \<and>
         (cerr = None \<and> n = Size h \<longrightarrow>
            (\<exists>fs'. store dst tr h name fs = (None, fs') \<and>
               nodes fs' f =
                 Some (Regular (take (nat (Size h)) (reader_bytes tr))
                         (ucast (Mode h) AND os_ModePerm))))"
proof -
  from os_Create_ok [OF assms(2)]
  obtain m where k: "fs_resolve True (snd (os_MkdirAll (path_Dir name) 511 fs)) name = Inr f"
    and m: "nodes fs1 f = Some (Regular [] m)" by blast
  from io_Copy_result [OF assms(3) m]
  have r: "0 \<le> n" "n \<le> max 0 (Size h)"
    "nodes fs2 f = Some (Regular (take (nat n) (reader_bytes tr)) m)"
    by simp_all
  note s = store_Reg [OF assms, of dst]
  have "cerr = None \<and> n = Size h \<longrightarrow>
        (\<exists>fs'. store dst tr h name fs = (None, fs') \<and>
           nodes fs' f =
             Some (Regular (take (nat (Size h)) (reader_bytes tr))
                     (ucast (Mode h) AND os_ModePerm)))"
    using s r(3) by (auto simp: File_Chmod_Regular fs_put_def)
  moreover have "\<forall>err. cerr = Some err \<longrightarrow>
        store dst tr h name fs = (Some (ErrExtracting err), fs2)"
    using s by simp
  moreover have "cerr = None \<and> n \<noteq> Size h \<longrightarrow>
        store dst tr h name fs = (Some (ErrExtractingBytes n (Size h)), fs2)"
    using s by simp
  ultimately show ?thesis using k r by blast
qed

text \<open>
  The entry \<^verbatim>\<open>go/VERSION\<close> into the empty destination, and into a destination where
  \<^verbatim>\<open>tmp/go\<close> is a link to the directory \<^verbatim>\<open>tmp/real\<close> and \<^verbatim>\<open>tmp/real/VERSION\<close> a
  link to \<^verbatim>\<open>v\<close>: there the file opened is \<^verbatim>\<open>tmp/real/v\<close>.
\<close>

theorem store_regular_file_witness:
  "Typeflag ex_version = tar_TypeReg \<and>
   os_Create ''tmp/go/VERSION'' (snd (os_MkdirAll (path_Dir ''tmp/go/VERSION'') 511 ex_fs)) =
     (Inr ''tmp/go/VERSION'',
      snd (os_Create ''tmp/go/VERSION''
             (snd (os_MkdirAll (path_Dir ''tmp/go/VERSION'') 511 ex_fs)))) \<and>
   fst (io_Copy ''tmp/go/VERSION'' (io_LimitReader ex_content (Size ex_version))
          (snd (os_Create ''tmp/go/VERSION''
                  (snd (os_MkdirAll (path_Dir ''tmp/go/VERSION'') 511 ex_fs))))) = 3 \<and>
   fst (store ''tmp/'' ex_content ex_version ''tmp/go/VERSION'' ex_fs) = None \<and>
   nodes (snd (store ''tmp/'' ex_content ex_version ''tmp/go/VERSION'' ex_fs))
     ''tmp/go/VERSION'' = Some (Regular [103, 111, 49] 420) \<and>
   os_Create ''tmp/go/VERSION''
       (snd (os_MkdirAll (path_Dir ''tmp/go/VERSION'') 511 ex_fs_links)) =
     (Inr ''tmp/real/v'',
      snd (os_Create ''tmp/go/VERSION''
             (snd (os_MkdirAll (path_Dir ''tmp/go/VERSION'') 511 ex_fs_links)))) \<and>
   fst (store ''tmp/'' ex_content ex_version ''tmp/go/VERSION'' ex_fs_links) = None \<and>
   nodes (snd (store ''tmp/'' ex_content ex_version ''tmp/go/VERSION'' ex_fs_links))
     ''tmp/real/v'' = Some (Regular [103, 111, 49] 420)"
proof -
  let ?fs0 = "snd (os_MkdirAll (path_Dir ''tmp/go/VERSION'') 511 ex_fs)"
  let ?fs1 = "snd (os_Create ''tmp/go/VERSION'' ?fs0)"
  let ?cp = "io_Copy ''tmp/go/VERSION'' (io_LimitReader ex_content (Size ex_version)) ?fs1"
  let ?gs0 = "snd (os_MkdirAll (path_Dir ''tmp/go/VERSION'') 511 ex_fs_links)"
  let ?gs1 = "snd (os_Create ''tmp/go/VERSION'' ?gs0)"
  let ?cq = "io_Copy ''tmp/real/v'' (io_LimitReader ex_content (Size ex_version)) ?gs1"
  have t: "Typeflag ex_version = tar_TypeReg"
    by (simp add: ex_version_def)
  have "fst (os_Create ''tmp/go/VERSION'' ?fs0) = Inr ''tmp/go/VERSION''"
    by code_simp
  then have c: "os_Create ''tmp/go/VERSION'' ?fs0 = (Inr ''tmp/go/VERSION'', ?fs1)"
    by (simp add: prod_eq_iff)
  have "fst (os_Create ''tmp/go/VERSION'' ?gs0) = Inr ''tmp/real/v''"
    by code_simp
  then have d: "os_Create ''tmp/go/VERSION'' ?gs0 = (Inr ''tmp/real/v'', ?gs1)"
    by (simp add: prod_eq_iff)
  have k3: "fst ?cp = 3"
    by code_simp
  have kn: "fst (snd ?cp) = None"
    by code_simp
  have k: "?cp = (3, None, snd (snd ?cp))"
    using k3 kn by (simp add: prod_eq_iff)
  have q3: "fst ?cq = 3"
    by code_simp
  have qn: "fst (snd ?cq) = None"
    by code_simp
  have q: "?cq = (3, None, snd (snd ?cq))"
    using q3 qn by (simp add: prod_eq_iff)
  have sz: "Size ex_version = 3"
    by (simp add: ex_version_def)
  have a: "fst (store ''tmp/'' ex_content ex_version ''tmp/go/VERSION'' ex_fs) = None"
    using store_regular_file [OF t c k, of "''tmp/''"] sz by auto
  have b: "fst (store ''tmp/'' ex_content ex_version ''tmp/go/VERSION'' ex_fs_links) = None"
    using store_regular_file [OF t d q, of "''tmp/''"] sz by auto
  have e: "nodes (snd (store ''tmp/'' ex_content ex_version ''tmp/go/VERSION'' ex_fs))
     ''tmp/go/VERSION'' = Some (Regular [103, 111, 49] 420)"
    by code_simp
  have f: "nodes (snd (store ''tmp/'' ex_content ex_version ''tmp/go/VERSION'' ex_fs_links))
     ''tmp/real/v'' = Some (Regular [103, 111, 49] 420)"
    by code_simp
  show ?thesis using t c d k3 a b e f by blast
qed

subsection \<open>Skipped and unsupported entries\<close>

text \<open>
  C6, as the code has it. For a global-header or sparse entry \<^verbatim>\<open>store\<close> returns no
  error, and for an entry of a type it does not know it returns the unsupported-typeflag
  error; in both cases the file system it leaves is the one \<^verbatim>\<open>os.MkdirAll\<close> of the
  parent directory of the entry leaves, which \<^verbatim>\<open>store\<close> calls first for every entry.
\<close>

theorem store_skip_and_unsupported:
  "(Typeflag h = tar_TypeXGlobalHeader \<or> Typeflag h = tar_TypeGNUSparse \<longrightarrow>
      store dst tr h name fs = (None, snd (os_MkdirAll (path_Dir name) 511 fs))) \<and>
   (Typeflag h \<notin> {tar_TypeReg, tar_TypeLink, tar_TypeSymlink, tar_TypeDir,
                    tar_TypeXGlobalHeader, tar_TypeGNUSparse} \<longrightarrow>
      store dst tr h name fs =
        (Some (ErrTypeflag (Typeflag h)), snd (os_MkdirAll (path_Dir name) 511 fs)))"
  by (auto simp: store_def Let_def tar_Type_defs)

theorem store_skip_and_unsupported_witness:
  "Typeflag ex_global = tar_TypeXGlobalHeader \<and>
   store ''tmp/'' [] ex_global ''tmp/go/pax_global_header'' ex_fs =
     (None, snd (os_MkdirAll (path_Dir ''tmp/go/pax_global_header'') 511 ex_fs)) \<and>
   Typeflag ex_fifo \<notin> {tar_TypeReg, tar_TypeLink, tar_TypeSymlink, tar_TypeDir,
                         tar_TypeXGlobalHeader, tar_TypeGNUSparse} \<and>
   store ''tmp/'' [] ex_fifo ''tmp/go/fifo'' ex_fs =
     (Some (ErrTypeflag (Typeflag ex_fifo)),
      snd (os_MkdirAll (path_Dir ''tmp/go/fifo'') 511 ex_fs))"
proof -
  have g: "Typeflag ex_global = tar_TypeXGlobalHeader"
    by (simp add: ex_global_def)
  have f: "Typeflag ex_fifo \<notin> {tar_TypeReg, tar_TypeLink, tar_TypeSymlink, tar_TypeDir,
                                  tar_TypeXGlobalHeader, tar_TypeGNUSparse}"
    by (simp add: ex_fifo_def tar_Type_defs)
  from store_skip_and_unsupported
         [of ex_global "''tmp/''" "[]" "''tmp/go/pax_global_header''" ex_fs]
       store_skip_and_unsupported [of ex_fifo "''tmp/''" "[]" "''tmp/go/fifo''" ex_fs]
  show ?thesis using g f by blast
qed

text \<open>
  C6 as stated fails: the sparse entry \<^verbatim>\<open>go/data/disk.img\<close> is skipped without an
  error, and the directories \<^verbatim>\<open>tmp/go\<close> and \<^verbatim>\<open>tmp/go/data\<close>, which did not exist,
  exist afterwards.
\<close>

theorem store_skipped_entry_mutates_counterexample:
  "Typeflag ex_sparse = tar_TypeGNUSparse \<and>
   dstName ''tmp/'' (Name ex_sparse) = Inr ''tmp/go/data/disk.img'' \<and>
   fst (store ''tmp/'' [] ex_sparse ''tmp/go/data/disk.img'' ex_fs) = None \<and>
   nodes ex_fs ''tmp/go'' = None \<and>
   nodes ex_fs ''tmp/go/data'' = None \<and>
   nodes (snd (store ''tmp/'' [] ex_sparse ''tmp/go/data/disk.img'' ex_fs)) ''tmp/go'' =
     Some (Directory 493) \<and>
   nodes (snd (store ''tmp/'' [] ex_sparse ''tmp/go/data/disk.img'' ex_fs)) ''tmp/go/data'' =
     Some (Directory 493)"
  by code_simp

subsection \<open>Directories\<close>

text \<open>
  C7, as the code has it. A directory entry is made with \<^verbatim>\<open>os.Mkdir(name, 0777)\<close>, at
  the key the name leads to: the mode of the new directory is 0777 without the bits of
  the umask, and the \<open>Mode\<close> of the header plays no part, so that any other \<open>Mode\<close>
  gives the same result.
\<close>

theorem store_directory_mode:
  assumes "Typeflag h = tar_TypeDir"
    and "store dst tr h name fs = (None, fs')"
  shows "(\<exists>k. fs_resolve False (snd (os_MkdirAll (path_Dir name) 511 fs)) name = Inr k \<and>
              nodes fs' k = Some (Directory (511 AND NOT (umask fs)))) \<and>
         store dst tr (h\<lparr>Mode := m\<rparr>) name fs = (None, fs')"
proof -
  from assms have "os_Mkdir name 511 (snd (os_MkdirAll (path_Dir name) 511 fs)) = (None, fs')"
    by (simp add: store_Dir)
  from os_Mkdir_ok [OF this]
  have "\<exists>k. fs_resolve False (snd (os_MkdirAll (path_Dir name) 511 fs)) name = Inr k \<and>
            nodes fs' k = Some (Directory (511 AND NOT (umask fs)))"
    by (auto simp: os_MkdirAll_frame)
  moreover have "store dst tr (h\<lparr>Mode := m\<rparr>) name fs = (None, fs')"
    using assms by (simp add: store_Dir)
  ultimately show ?thesis by blast
qed

text \<open>
  The entry \<^verbatim>\<open>go/pkg\<close> into the empty destination, and into the destination where
  \<^verbatim>\<open>tmp/go\<close> is a link to the directory \<^verbatim>\<open>tmp/real\<close>: there the directory made is
  \<^verbatim>\<open>tmp/real/pkg\<close>.
\<close>

theorem store_directory_mode_witness:
  "Typeflag ex_dir = tar_TypeDir \<and>
   store ''tmp/'' [] ex_dir ''tmp/go/pkg'' ex_fs =
     (None, snd (store ''tmp/'' [] ex_dir ''tmp/go/pkg'' ex_fs)) \<and>
   (\<exists>k. fs_resolve False (snd (os_MkdirAll (path_Dir ''tmp/go/pkg'') 511 ex_fs)) ''tmp/go/pkg'' =
          Inr k \<and>
        nodes (snd (store ''tmp/'' [] ex_dir ''tmp/go/pkg'' ex_fs)) k =
          Some (Directory (511 AND NOT (umask ex_fs)))) \<and>
   store ''tmp/'' [] (ex_dir\<lparr>Mode := 493\<rparr>) ''tmp/go/pkg'' ex_fs =
     (None, snd (store ''tmp/'' [] ex_dir ''tmp/go/pkg'' ex_fs)) \<and>
   fs_resolve False (snd (os_MkdirAll (path_Dir ''tmp/go/pkg'') 511 ex_fs)) ''tmp/go/pkg'' =
     Inr ''tmp/go/pkg'' \<and>
   store ''tmp/'' [] ex_dir ''tmp/go/pkg'' ex_fs_links =
     (None, snd (store ''tmp/'' [] ex_dir ''tmp/go/pkg'' ex_fs_links)) \<and>
   (\<exists>k. fs_resolve False (snd (os_MkdirAll (path_Dir ''tmp/go/pkg'') 511 ex_fs_links))
          ''tmp/go/pkg'' = Inr k \<and>
        nodes (snd (store ''tmp/'' [] ex_dir ''tmp/go/pkg'' ex_fs_links)) k =
          Some (Directory (511 AND NOT (umask ex_fs_links)))) \<and>
   fs_resolve False (snd (os_MkdirAll (path_Dir ''tmp/go/pkg'') 511 ex_fs_links)) ''tmp/go/pkg'' =
     Inr ''tmp/real/pkg''"
proof -
  have t: "Typeflag ex_dir = tar_TypeDir"
    by (simp add: ex_dir_def)
  have "fst (store ''tmp/'' [] ex_dir ''tmp/go/pkg'' ex_fs) = None"
    by code_simp
  then have s: "store ''tmp/'' [] ex_dir ''tmp/go/pkg'' ex_fs =
      (None, snd (store ''tmp/'' [] ex_dir ''tmp/go/pkg'' ex_fs))"
    by (simp add: prod_eq_iff)
  have "fst (store ''tmp/'' [] ex_dir ''tmp/go/pkg'' ex_fs_links) = None"
    by code_simp
  then have u: "store ''tmp/'' [] ex_dir ''tmp/go/pkg'' ex_fs_links =
      (None, snd (store ''tmp/'' [] ex_dir ''tmp/go/pkg'' ex_fs_links))"
    by (simp add: prod_eq_iff)
  have k: "fs_resolve False (snd (os_MkdirAll (path_Dir ''tmp/go/pkg'') 511 ex_fs)) ''tmp/go/pkg'' =
     Inr ''tmp/go/pkg''"
    by code_simp
  have l: "fs_resolve False (snd (os_MkdirAll (path_Dir ''tmp/go/pkg'') 511 ex_fs_links))
     ''tmp/go/pkg'' = Inr ''tmp/real/pkg''"
    by code_simp
  from store_directory_mode [OF t s, of 493] store_directory_mode [OF t u, of 493] t s u k l
  show ?thesis by blast
qed

text \<open>
  C7 as stated fails: the directory entry \<^verbatim>\<open>go/pkg\<close> declares mode 0700 (448), and the
  directory made has mode 0755 (493).
\<close>

theorem store_directory_mode_counterexample:
  "Typeflag ex_dir = tar_TypeDir \<and>
   (ucast (Mode ex_dir) AND os_ModePerm :: FileMode) = 448 \<and>
   fst (store ''tmp/'' [] ex_dir ''tmp/go/pkg'' ex_fs) = None \<and>
   nodes (snd (store ''tmp/'' [] ex_dir ''tmp/go/pkg'' ex_fs)) ''tmp/go/pkg'' =
     Some (Directory 493)"
  by code_simp

subsection \<open>Symbolic links\<close>

text \<open>
  C10. \<^verbatim>\<open>store\<close> gives \<^verbatim>\<open>os.Symlink\<close> the declared link target joined to \<open>dst\<close> and
  cleaned, and \<open>dst\<close> is the destination as the caller wrote it, cleaned, with a slash.
  With the destination \<^verbatim>\<open>/opt\<close> the link \<^verbatim>\<open>go/bin/go\<close> is made with the absolute target
  \<^verbatim>\<open>/opt/go/pkg/tool/go\<close> and leads to the file. With the destination \<^verbatim>\<open>tmp\<close> the same
  archive is fetched without an error, the target stored is \<^verbatim>\<open>tmp/go/pkg/tool/go\<close>,
  which is no absolute path, and the link leads nowhere, since the system reads the
  target from the directory of the link.
\<close>

theorem Fetch_symlink_target_of_relative_destination:
  "fst (Fetch (\<lambda>bs. ex_digest) (\<lambda>u. Inr ex_resp) (\<lambda>b. ex_archive_links) ex_file ''/opt''
          ex_world_opt) = None \<and>
   nodes (w_fs (snd (Fetch (\<lambda>bs. ex_digest) (\<lambda>u. Inr ex_resp) (\<lambda>b. ex_archive_links) ex_file
                       ''/opt'' ex_world_opt))) ''/opt/go/bin/go'' =
     Some (Symlink ''/opt/go/pkg/tool/go'') \<and>
   path_IsAbs ''/opt/go/pkg/tool/go'' \<and>
   os_Stat ''/opt/go/bin/go''
       (w_fs (snd (Fetch (\<lambda>bs. ex_digest) (\<lambda>u. Inr ex_resp) (\<lambda>b. ex_archive_links) ex_file
                     ''/opt'' ex_world_opt))) = Inr (Regular [127, 69] 493) \<and>
   fst (Fetch (\<lambda>bs. ex_digest) (\<lambda>u. Inr ex_resp) (\<lambda>b. ex_archive_links) ex_file ''tmp''
          ex_world) = None \<and>
   nodes (w_fs (snd (Fetch (\<lambda>bs. ex_digest) (\<lambda>u. Inr ex_resp) (\<lambda>b. ex_archive_links) ex_file
                       ''tmp'' ex_world))) ''tmp/go/bin/go'' =
     Some (Symlink ''tmp/go/pkg/tool/go'') \<and>
   \<not> path_IsAbs ''tmp/go/pkg/tool/go'' \<and>
   os_Stat ''tmp/go/pkg/tool/go''
       (w_fs (snd (Fetch (\<lambda>bs. ex_digest) (\<lambda>u. Inr ex_resp) (\<lambda>b. ex_archive_links) ex_file
                     ''tmp'' ex_world))) = Inr (Regular [127, 69] 493) \<and>
   os_Stat ''tmp/go/bin/go''
       (w_fs (snd (Fetch (\<lambda>bs. ex_digest) (\<lambda>u. Inr ex_resp) (\<lambda>b. ex_archive_links) ex_file
                     ''tmp'' ex_world))) = Inl (Errno ENOENT)"
  by code_simp

text \<open>
  A link target is joined to \<open>dst\<close> and not to the directory of the link: the target
  \<^verbatim>\<open>../pkg/tool/go\<close> of the link \<^verbatim>\<open>go/bin/go\<close>, which names \<^verbatim>\<open>go/pkg/tool/go\<close>, is
  refused.
\<close>

lemma dstName_link_target_above:
  "dstName ''tmp/'' ''../pkg/tool/go'' = Inl (ErrBadPath ''../pkg/tool/go'' ''pkg/tool/go'' ''tmp/'')"
  by code_simp

subsection \<open>What the operations leave alone\<close>














lemma extractLoop_None_end:
  "extractLoop dst ens end_reads end_err hr fs = (None, hr', fs') \<Longrightarrow> end_err = None"
  by (induction ens arbitrary: hr fs)
     (auto simp: Let_def split: sum.splits prod.splits option.splits)


subsection \<open>The course of Fetch\<close>

lemma Fetch_not_validated:
  "\<not> Fetch_validated file dst (w_fs w) \<Longrightarrow>
   snd (Fetch sha256_Sum http_Get decode file dst w) = w \<and>
   fst (Fetch sha256_Sum http_Get decode file dst w) \<noteq> None"
  by (auto simp: Fetch_def Fetch_validated_def split: sum.splits)

lemma Fetch_not_downloaded:
  "Fetch_validated file dst (w_fs w) \<Longrightarrow> \<not> Fetch_downloaded http_Get decode file \<Longrightarrow>
   snd (Fetch sha256_Sum http_Get decode file dst w) =
     w\<lparr>w_requests := w_requests w @ [Fetch_url file]\<rparr> \<and>
   fst (Fetch sha256_Sum http_Get decode file dst w) \<noteq> None"
  by (auto simp: Fetch_def Fetch_validated_def Fetch_downloaded_def Fetch_url_def Let_def
           split: sum.splits option.splits)

lemma Fetch_downloaded_run:
  assumes "Fetch_validated file dst (w_fs w)"
    and "http_Get (Fetch_url file) = Inr resp"
    and "StatusCode resp = 200"
    and "ar_gzip_err (decode (Body resp)) = None"
    and "Fetch_loop decode dst resp (w_fs w) = (r, hr2, fs2)"
  shows "Fetch sha256_Sum http_Get decode file dst w =
     (case r of
        Some err \<Rightarrow>
          (Some err,
           w\<lparr>w_requests := w_requests w @ [Fetch_url file],
             w_fs := os_RemoveAll (path_Join [path_Clean dst @ ''/'', ''go'']) fs2\<rparr>)
      | None \<Rightarrow>
          (case verifySum (sha256_Sum (hr_h hr2)) (Sha256 file) of
             Some err \<Rightarrow>
               (Some err,
                w\<lparr>w_requests := w_requests w @ [Fetch_url file],
                  w_fs := os_RemoveAll (path_Join [path_Clean dst @ ''/'', ''go'']) fs2\<rparr>)
           | None \<Rightarrow> (None, w\<lparr>w_requests := w_requests w @ [Fetch_url file], w_fs := fs2\<rparr>)))"
  using assms
  by (auto simp: Fetch_def Fetch_validated_def Fetch_url_def Fetch_loop_def Let_def
           split: sum.splits option.splits)

subsection \<open>Failed checks before the download\<close>

text \<open>
  C4, as the code has it. When a check of lines 21 to 38 fails (the file name does not
  end in \<^verbatim>\<open>.tar.gz\<close>, \<^verbatim>\<open>os.Stat\<close> of the destination fails, as it does when the
  destination does not exist, the destination is not a directory, or \<^verbatim>\<open>os.Stat\<close> of its
  \<^verbatim>\<open>go\<close> succeeds), \<^verbatim>\<open>Fetch\<close> returns an error and leaves the file system and the list
  of requests as they were.
\<close>

theorem Fetch_failed_check_no_effect:
  assumes "\<not> strings_HasSuffix (Filename file) ''.tar.gz'' \<or>
           (\<exists>e. os_Stat dst (w_fs w) = Inl e) \<or>
           (\<exists>fi. os_Stat dst (w_fs w) = Inr fi \<and> \<not> IsDir fi) \<or>
           (\<exists>fi. os_Stat (path_Join [dst, ''go'']) (w_fs w) = Inr fi)"
  shows "fst (Fetch sha256_Sum http_Get decode file dst w) \<noteq> None \<and>
         snd (Fetch sha256_Sum http_Get decode file dst w) = w"
proof -
  from assms have "\<not> Fetch_validated file dst (w_fs w)"
    by (auto simp: Fetch_validated_def)
  then show ?thesis
    using Fetch_not_validated by blast
qed

theorem Fetch_failed_check_no_effect_witness:
  "os_Stat (path_Join [''tmp'', ''go'']) (w_fs \<lparr>w_fs = ex_fs_go, w_requests = []\<rparr>) =
     Inr (Directory 493) \<and>
   fst (Fetch (\<lambda>bs. ex_digest) (\<lambda>u. Inr ex_resp) (\<lambda>b. ex_archive) ex_file ''tmp''
          \<lparr>w_fs = ex_fs_go, w_requests = []\<rparr>) \<noteq> None \<and>
   snd (Fetch (\<lambda>bs. ex_digest) (\<lambda>u. Inr ex_resp) (\<lambda>b. ex_archive) ex_file ''tmp''
          \<lparr>w_fs = ex_fs_go, w_requests = []\<rparr>) = \<lparr>w_fs = ex_fs_go, w_requests = []\<rparr> \<and>
   fst (Fetch (\<lambda>bs. ex_digest) (\<lambda>u. Inr ex_resp) (\<lambda>b. ex_archive) ex_file ''tmp''
          \<lparr>w_fs = ex_fs_go, w_requests = []\<rparr>) = Some ErrGoExists"
proof -
  have s: "os_Stat (path_Join [''tmp'', ''go'']) (w_fs \<lparr>w_fs = ex_fs_go, w_requests = []\<rparr>) =
      Inr (Directory 493)"
    by code_simp
  have e: "fst (Fetch (\<lambda>bs. ex_digest) (\<lambda>u. Inr ex_resp) (\<lambda>b. ex_archive) ex_file ''tmp''
          \<lparr>w_fs = ex_fs_go, w_requests = []\<rparr>) = Some ErrGoExists"
    by code_simp
  from s have "\<exists>fi. os_Stat (path_Join [''tmp'', ''go''])
                      (w_fs \<lparr>w_fs = ex_fs_go, w_requests = []\<rparr>) = Inr fi"
    by blast
  then have "\<not> strings_HasSuffix (Filename ex_file) ''.tar.gz'' \<or>
      (\<exists>e. os_Stat ''tmp'' (w_fs \<lparr>w_fs = ex_fs_go, w_requests = []\<rparr>) = Inl e) \<or>
      (\<exists>fi. os_Stat ''tmp'' (w_fs \<lparr>w_fs = ex_fs_go, w_requests = []\<rparr>) = Inr fi \<and> \<not> IsDir fi) \<or>
      (\<exists>fi. os_Stat (path_Join [''tmp'', ''go''])
              (w_fs \<lparr>w_fs = ex_fs_go, w_requests = []\<rparr>) = Inr fi)"
    by blast
  from Fetch_failed_check_no_effect [OF this] s e show ?thesis
    by blast
qed

text \<open>
  C4 as stated fails: the destination \<^verbatim>\<open>tmp\<close> holds the directory \<^verbatim>\<open>go\<close>, which
  \<^verbatim>\<open>os.Stat\<close> cannot reach, and \<^verbatim>\<open>Fetch\<close> makes the request.
\<close>

theorem Fetch_go_present_unreachable_counterexample:
  "strings_HasSuffix (Filename ex_file) ''.tar.gz'' \<and>
   os_Stat ''tmp'' ex_fs_go_denied = Inr (Directory 493) \<and>
   nodes ex_fs_go_denied ''tmp/go'' = Some (Directory 493) \<and>
   os_Stat (path_Join [''tmp'', ''go'']) ex_fs_go_denied = Inl (Errno EACCES) \<and>
   w_requests (snd (Fetch (\<lambda>bs. ex_digest) (\<lambda>u. Inr ex_resp) (\<lambda>b. ex_archive) ex_file ''tmp''
                      \<lparr>w_fs = ex_fs_go_denied, w_requests = []\<rparr>)) =
     [''https://golang.org/dl/go1.21.0.linux-amd64.tar.gz'']"
  by code_simp

subsection \<open>An error of the second Stat\<close>

text \<open>
  C9. When the other checks pass and \<^verbatim>\<open>os.Stat\<close> of the \<^verbatim>\<open>go\<close> subdirectory fails,
  with whatever error, \<^verbatim>\<open>Fetch\<close> makes the request for the file; and when the download
  succeeds it runs the loop over the entries from the file system as it is, and returns
  the error of the loop, if any.
\<close>

theorem Fetch_go_stat_error_proceeds:
  assumes "strings_HasSuffix (Filename file) ''.tar.gz''"
    and "os_Stat dst (w_fs w) = Inr fi"
    and "IsDir fi"
    and "os_Stat (path_Join [dst, ''go'']) (w_fs w) = Inl (Errno e)"
    and "e \<noteq> ENOENT"
  shows "w_requests (snd (Fetch sha256_Sum http_Get decode file dst w)) =
           w_requests w @ [''https://golang.org/dl/'' @ Filename file] \<and>
         (\<forall>resp err. http_Get (''https://golang.org/dl/'' @ Filename file) = Inr resp \<and>
            StatusCode resp = 200 \<and> ar_gzip_err (decode (Body resp)) = None \<and>
            fst (Fetch_loop decode dst resp (w_fs w)) = Some err \<longrightarrow>
            fst (Fetch sha256_Sum http_Get decode file dst w) = Some err)"
proof -
  from assms have v: "Fetch_validated file dst (w_fs w)"
    by (simp add: Fetch_validated_def)
  have u: "Fetch_url file = ''https://golang.org/dl/'' @ Filename file"
    by (simp add: Fetch_url_def)
  have a: "w_requests (snd (Fetch sha256_Sum http_Get decode file dst w)) =
           w_requests w @ [Fetch_url file]"
  proof (cases "Fetch_downloaded http_Get decode file")
    case False
    with v show ?thesis by (simp add: Fetch_not_downloaded)
  next
    case True
    then obtain resp where r: "http_Get (Fetch_url file) = Inr resp" "StatusCode resp = 200"
        "ar_gzip_err (decode (Body resp)) = None"
      by (auto simp: Fetch_downloaded_def split: sum.splits)
    obtain r hr2 fs2 where l: "Fetch_loop decode dst resp (w_fs w) = (r, hr2, fs2)"
      by (metis prod.exhaust)
    show ?thesis
      by (simp add: Fetch_downloaded_run [where http_Get = http_Get and decode = decode, OF v r l] split: option.splits)
  qed
  have b: "fst (Fetch sha256_Sum http_Get decode file dst w) = Some err"
    if h1: "http_Get (Fetch_url file) = Inr resp" and h2: "StatusCode resp = 200"
      and h3: "ar_gzip_err (decode (Body resp)) = None"
      and h4: "fst (Fetch_loop decode dst resp (w_fs w)) = Some err" for resp err
  proof -
    obtain hr2 fs2 where l: "Fetch_loop decode dst resp (w_fs w) = (Some err, hr2, fs2)"
      using h4 by (metis prod.collapse)
    show ?thesis
      by (simp add: Fetch_downloaded_run
                      [where http_Get = http_Get and decode = decode, OF v h1 h2 h3 l])
  qed
  from a b show ?thesis unfolding u by blast
qed

theorem Fetch_go_stat_error_proceeds_witness:
  "strings_HasSuffix (Filename ex_file) ''.tar.gz'' \<and>
   os_Stat ''tmp'' (w_fs \<lparr>w_fs = ex_fs_denied, w_requests = []\<rparr>) = Inr (Directory 493) \<and>
   IsDir (Directory 493) \<and>
   os_Stat (path_Join [''tmp'', ''go'']) (w_fs \<lparr>w_fs = ex_fs_denied, w_requests = []\<rparr>) =
     Inl (Errno EACCES) \<and>
   EACCES \<noteq> ENOENT \<and>
   w_requests (snd (Fetch (\<lambda>bs. ex_digest) (\<lambda>u. Inr ex_resp) (\<lambda>b. ex_archive) ex_file ''tmp''
                      \<lparr>w_fs = ex_fs_denied, w_requests = []\<rparr>)) =
     w_requests \<lparr>w_fs = ex_fs_denied, w_requests = []\<rparr> @
       [''https://golang.org/dl/'' @ Filename ex_file] \<and>
   fst (Fetch_loop (\<lambda>b. ex_archive) ''tmp'' ex_resp (w_fs \<lparr>w_fs = ex_fs_denied, w_requests = []\<rparr>)) =
     Some (Errno EACCES) \<and>
   fst (Fetch (\<lambda>bs. ex_digest) (\<lambda>u. Inr ex_resp) (\<lambda>b. ex_archive) ex_file ''tmp''
          \<lparr>w_fs = ex_fs_denied, w_requests = []\<rparr>) = Some (Errno EACCES)"
proof -
  let ?w = "\<lparr>w_fs = ex_fs_denied, w_requests = []\<rparr>"
  have x: "strings_HasSuffix (Filename ex_file) ''.tar.gz''"
    by code_simp
  have d: "os_Stat ''tmp'' (w_fs ?w) = Inr (Directory 493)"
    by code_simp
  have i: "IsDir (Directory 493)"
    by (simp add: IsDir_def)
  have g: "os_Stat (path_Join [''tmp'', ''go'']) (w_fs ?w) = Inl (Errno EACCES)"
    by code_simp
  have n: "EACCES \<noteq> ENOENT"
    by simp
  have r: "StatusCode ex_resp = 200" "ar_gzip_err ex_archive = None"
    by (simp_all add: ex_resp_def ex_archive_def)
  have l: "fst (Fetch_loop (\<lambda>b. ex_archive) ''tmp'' ex_resp (w_fs ?w)) = Some (Errno EACCES)"
    by code_simp
  from Fetch_go_stat_error_proceeds
         [OF x d i g n, of "\<lambda>bs. ex_digest" "\<lambda>u. Inr ex_resp" "\<lambda>b. ex_archive"]
  show ?thesis
    using x d i g n r l by blast
qed

subsection \<open>The digest\<close>

lemma hashReader_Reads_add:
  "hashReader_Reads (a + b) hr = hashReader_Reads b (hashReader_Reads a hr)"
  by (induction a arbitrary: hr) simp_all

lemma hashReader_Reads_ReadAll:
  "hashReader_Reads k hr = snd (hashReader_ReadAll (replicate k 4096) hr)"
  by (induction k arbitrary: hr) (simp_all split: prod.splits)

lemma extractLoop_None_reads:
  "extractLoop dst ens end_reads end_err hr fs = (None, hr', fs') \<Longrightarrow>
   hr' = hashReader_Reads (sum_list (map te_reads ens) + end_reads) hr"
proof (induction ens arbitrary: hr fs)
  case Nil
  then show ?case by (simp split: option.splits)
next
  case (Cons en ens)
  then show ?case
    by (auto simp: Let_def hashReader_Reads_add add.assoc
             split: sum.splits prod.splits option.splits)
qed

text \<open>
  C3, as the code has it. When the loop has come to the end of the entries without an
  error (the tar reader has returned \<^verbatim>\<open>io.EOF\<close>), the hash has been given the bytes of
  all the reads made on the body, in order; \<^verbatim>\<open>Fetch\<close> formats the digest in lower-case
  hex and succeeds exactly when that string is equal to the expected digest of the file,
  character for character; otherwise it fails with the checksum error.
\<close>

theorem Fetch_verifies_digest:
  assumes "Fetch_validated file dst (w_fs w)"
    and "http_Get (Fetch_url file) = Inr resp"
    and "StatusCode resp = 200"
    and "ar_gzip_err (decode (Body resp)) = None"
    and "Fetch_loop decode dst resp (w_fs w) = (None, hr2, fs2)"
  shows "ar_end_err (decode (Body resp)) = None \<and>
         hr_h hr2 =
           concat (map fst (fst (reader_ReadAll
             (replicate (ar_gzip_reads (decode (Body resp)) +
                         (sum_list (map te_reads (ar_entries (decode (Body resp)))) +
                          ar_end_reads (decode (Body resp)))) 4096)
             (Body resp)))) \<and>
         (fst (Fetch sha256_Sum http_Get decode file dst w) = None) =
           (Sprintf_x (sha256_Sum (hr_h hr2)) = Sha256 file) \<and>
         (Sprintf_x (sha256_Sum (hr_h hr2)) \<noteq> Sha256 file \<longrightarrow>
            fst (Fetch sha256_Sum http_Get decode file dst w) =
              Some (ErrChecksum (Sprintf_x (map of_char (Sprintf_x (sha256_Sum (hr_h hr2)))))
                      (Sha256 file)))"
proof -
  note l = assms(5) [unfolded Fetch_loop_def]
  have e: "ar_end_err (decode (Body resp)) = None"
    using extractLoop_None_end [OF l] .
  have "hr2 = hashReader_Reads
                (ar_gzip_reads (decode (Body resp)) +
                 (sum_list (map te_reads (ar_entries (decode (Body resp)))) +
                  ar_end_reads (decode (Body resp))))
                \<lparr>hr_r = Body resp, hr_h = []\<rparr>"
    using extractLoop_None_reads [OF l] by (simp add: hashReader_Reads_add)
  then have h: "hr_h hr2 =
      concat (map fst (fst (reader_ReadAll
        (replicate (ar_gzip_reads (decode (Body resp)) +
                    (sum_list (map te_reads (ar_entries (decode (Body resp)))) +
                     ar_end_reads (decode (Body resp)))) 4096)
        (Body resp))))"
    by (simp add: hashReader_Reads_ReadAll hashReader_ReadAll_eq)
  note run = Fetch_downloaded_run
               [where http_Get = http_Get and decode = decode and sha256_Sum = sha256_Sum,
                OF assms]
  have v: "(fst (Fetch sha256_Sum http_Get decode file dst w) = None) =
           (Sprintf_x (sha256_Sum (hr_h hr2)) = Sha256 file)"
    by (simp add: run verifySum_def Let_def)
  have m: "Sprintf_x (sha256_Sum (hr_h hr2)) \<noteq> Sha256 file \<longrightarrow>
            fst (Fetch sha256_Sum http_Get decode file dst w) =
              Some (ErrChecksum (Sprintf_x (map of_char (Sprintf_x (sha256_Sum (hr_h hr2)))))
                      (Sha256 file))"
    by (simp add: run verifySum_def Let_def)
  from e h v m show ?thesis by blast
qed

theorem Fetch_verifies_digest_witness:
  "Fetch_validated ex_file ''tmp'' (w_fs ex_world) \<and>
   StatusCode ex_resp = 200 \<and>
   ar_gzip_err ex_archive = None \<and>
   fst (Fetch_loop (\<lambda>b. ex_archive) ''tmp'' ex_resp (w_fs ex_world)) = None \<and>
   hr_h (fst (snd (Fetch_loop (\<lambda>b. ex_archive) ''tmp'' ex_resp (w_fs ex_world)))) =
     [31, 139, 8, 0] \<and>
   Sprintf_x ex_digest = Sha256 ex_file \<and>
   fst (Fetch (\<lambda>bs. ex_digest) (\<lambda>u. Inr ex_resp) (\<lambda>b. ex_archive) ex_file ''tmp'' ex_world) = None \<and>
   Sprintf_x ex_digest \<noteq> Sha256 ex_file_upper \<and>
   Fetch_validated ex_file_upper ''tmp'' (w_fs ex_world) \<and>
   fst (Fetch (\<lambda>bs. ex_digest) (\<lambda>u. Inr ex_resp) (\<lambda>b. ex_archive) ex_file_upper ''tmp'' ex_world) =
     Some (ErrChecksum (Sprintf_x (map of_char (Sprintf_x ex_digest))) (Sha256 ex_file_upper))"
proof -
  let ?l = "Fetch_loop (\<lambda>b. ex_archive) ''tmp'' ex_resp (w_fs ex_world)"
  have v: "Fetch_validated ex_file ''tmp'' (w_fs ex_world)"
    by code_simp
  have vu: "Fetch_validated ex_file_upper ''tmp'' (w_fs ex_world)"
    by code_simp
  have g: "(\<lambda>u. Inr ex_resp) (Fetch_url ex_file) = Inr ex_resp"
          "(\<lambda>u. Inr ex_resp) (Fetch_url ex_file_upper) = Inr ex_resp"
    by simp_all
  have s: "StatusCode ex_resp = 200"
    by (simp add: ex_resp_def)
  have z: "ar_gzip_err ex_archive = None"
    by (simp add: ex_archive_def)
  have n: "fst ?l = None"
    by code_simp
  then have l: "?l = (None, fst (snd ?l), snd (snd ?l))"
    by (simp add: prod_eq_iff)
  have b: "hr_h (fst (snd ?l)) = [31, 139, 8, 0]"
    by code_simp
  have d: "Sprintf_x ex_digest = Sha256 ex_file"
    by code_simp
  have du: "Sprintf_x ex_digest \<noteq> Sha256 ex_file_upper"
    by code_simp
  have "fst (Fetch (\<lambda>bs. ex_digest) (\<lambda>u. Inr ex_resp) (\<lambda>b. ex_archive) ex_file ''tmp'' ex_world) = None"
    using Fetch_verifies_digest
            [where http_Get = "\<lambda>u. Inr ex_resp" and decode = "\<lambda>b. ex_archive"
               and sha256_Sum = "\<lambda>bs. ex_digest", OF v g(1) s z l] d
    by simp
  moreover
  have "fst (Fetch (\<lambda>bs. ex_digest) (\<lambda>u. Inr ex_resp) (\<lambda>b. ex_archive) ex_file_upper ''tmp'' ex_world) =
     Some (ErrChecksum (Sprintf_x (map of_char (Sprintf_x ex_digest))) (Sha256 ex_file_upper))"
    using Fetch_verifies_digest
            [where http_Get = "\<lambda>u. Inr ex_resp" and decode = "\<lambda>b. ex_archive"
               and sha256_Sum = "\<lambda>bs. ex_digest", OF vu g(2) s z l] du
    by simp
  ultimately show ?thesis
    using v vu s z n b d du by blast
qed

text \<open>
  C3 as stated fails: the expected digest in upper case is equal to the formatted digest
  up to the case of the letters, and the comparison fails with the checksum error; so
  does \<^verbatim>\<open>Fetch\<close> on a download whose digest is this one.
\<close>

theorem verifySum_letter_case_counterexample:
  "hexEqualFold (Sprintf_x ex_digest) (Sha256 ex_file_upper) \<and>
   verifySum ex_digest (Sha256 ex_file_upper) =
     Some (ErrChecksum (Sprintf_x (map of_char (Sprintf_x ex_digest))) (Sha256 ex_file_upper)) \<and>
   fst (Fetch (\<lambda>bs. ex_digest) (\<lambda>u. Inr ex_resp) (\<lambda>b. ex_archive) ex_file_upper ''tmp'' ex_world) =
     Some (ErrChecksum (Sprintf_x (map of_char (Sprintf_x ex_digest))) (Sha256 ex_file_upper))"
  by code_simp

subsection \<open>Failure and removal\<close>




end
